theory Spec2Isabelle
  imports Complex_Main "HOL-Library.Word"
begin

section \<open>Conventions of the embedding\<close>

text \<open>
  The Go sources are embedded as follows.
  \<^item> \<open>int64\<close>, \<open>int\<close> and \<open>time.Duration\<close> values that take part in arithmetic are
    \<open>64 word\<close>: \<open>+\<close> and \<open>-\<close> wrap, \<open>\<le>s\<close> and \<open><s\<close> are the signed comparisons.
  \<^item> \<open>uint64\<close> identifiers (store, region and peer ids) are only compared for
    equality and are \<open>nat\<close>.
  \<^item> \<open>float64\<close> values are the finite doubles, as \<open>real\<close> numbers: comparisons and
    \<open>math.Max\<close> are those of the reals, and every arithmetic operation and conversion
    rounds its exact result to the nearest double, ties to even (\<open>float64_round\<close>
    below). Infinities (a result beyond the largest double) and NaN are outside the
    model.
  \<^item> a nil pointer or an absent map entry is \<open>None\<close>.
  \<^item> metric counters and log calls have no effect on any value and are left out.
\<close>

type_synonym int64 = "64 word"

subsection \<open>float64 arithmetic\<close>

text \<open>\<open>pow2 e\<close> is 2 to the power \<open>e\<close> for an integer \<open>e\<close> of either sign, \<open>bitlength n\<close> the
  number of binary digits of \<open>n\<close>.\<close>

definition pow2 :: "int \<Rightarrow> real" where
  "pow2 e = (if 0 \<le> e then 2 ^ nat e else 1 / 2 ^ nat (- e))"

fun bitlength :: "nat \<Rightarrow> nat" where
  "bitlength n = (if n = 0 then 0 else Suc (bitlength (n div 2)))"

declare bitlength.simps [simp del]

text \<open>Rounding to the nearest integer, a tie going to the even one.\<close>

definition round_even :: "real \<Rightarrow> int" where
  "round_even x =
     (let f = \<lfloor>x\<rfloor>; d = x - real_of_int f
      in if d < 1 / 2 then f else if 1 / 2 < d then f + 1 else if even f then f else f + 1)"

text \<open>The binary exponent of a non-zero \<open>x\<close>: the \<open>e\<close> with \<open>2^e \<le> |x| < 2^(e+1)\<close> (lemma
  \<open>float64_exponent_bounds\<close>).\<close>

definition float64_exponent :: "real \<Rightarrow> int" where
  "float64_exponent x =
     (if 1 \<le> \<bar>x\<bar> then int (bitlength (nat \<lfloor>\<bar>x\<bar>\<rfloor>)) - 1
      else - int (bitlength (nat (\<lceil>1 / \<bar>x\<bar>\<rceil> - 1))))"

text \<open>
  The IEEE 754 binary64 rounding of a real number: 53 significant bits, so the unit in
  the last place is \<open>2^(e-52)\<close>, with the exponent not below -1022 (subnormal numbers
  share the unit \<open>2^(-1074)\<close>).
\<close>

definition float64_round :: "real \<Rightarrow> real" where
  "float64_round x =
     (if x = 0 then 0
      else (let e = max (float64_exponent x) (- 1022);
                ulp = pow2 (e - 52)
            in real_of_int (round_even (x / ulp)) * ulp))"

definition float64_add :: "real \<Rightarrow> real \<Rightarrow> real" where
  "float64_add x y = float64_round (x + y)"

definition float64_mul :: "real \<Rightarrow> real \<Rightarrow> real" where
  "float64_mul x y = float64_round (x * y)"

definition float64_div :: "real \<Rightarrow> real \<Rightarrow> real" where
  "float64_div x y = float64_round (x / y)"

text \<open>The conversions \<open>float64(n)\<close> of an integer and of an \<open>int64\<close>.\<close>

definition float64_of_int :: "int \<Rightarrow> real" where
  "float64_of_int n = float64_round (real_of_int n)"

definition float64_of_int64 :: "int64 \<Rightarrow> real" where
  "float64_of_int64 n = float64_of_int (sint n)"

text \<open>
  Go's conversion \<open>int64(x)\<close> of a float: the fraction is dropped (rounding towards
  zero). Outside the range of \<open>int64\<close> Go leaves the result to the implementation; the
  compiled code for amd64 gives the smallest \<open>int64\<close>, and so does the model.
\<close>

definition MinInt64 :: int64 where
  "MinInt64 = word_of_int (- (2 ^ 63))"

definition int64_of_float :: "real \<Rightarrow> int64" where
  "int64_of_float x =
     (let t = (if 0 \<le> x then \<lfloor>x\<rfloor> else \<lceil>x\<rceil>)
      in if - (2 ^ 63) \<le> t \<and> t < 2 ^ 63 then word_of_int t else MinInt64)"

text \<open>Go's integer division and remainder truncate towards zero.\<close>

definition go_quot :: "int \<Rightarrow> int \<Rightarrow> int" where
  "go_quot a b = sgn a * sgn b * (\<bar>a\<bar> div \<bar>b\<bar>)"

definition go_rem :: "int \<Rightarrow> int \<Rightarrow> int" where
  "go_rem a b = a - b * go_quot a b"

subsection \<open>Byte slices and errors\<close>

text \<open>A Go byte slice: \<open>None\<close> is the nil slice, \<open>Some []\<close> an empty one that is not nil.\<close>

type_synonym bytes = "8 word list option"

definition bytes_of :: "bytes \<Rightarrow> 8 word list" where
  "bytes_of b = (case b of None \<Rightarrow> [] | Some xs \<Rightarrow> xs)"

text \<open>The error values the modelled functions return.\<close>

datatype error = ErrNotBootstrapped | ErrSchedulerNotFound | ErrOther string

section \<open>Rule checker: down and offline peers (rule\_checker.go)\<close>

text \<open>\<open>metapb.Peer\<close>: only the fields the checker reads.\<close>

record Peer =
  peer_Id :: nat
  peer_StoreId :: nat
  peer_IsLearner :: bool

text \<open>\<open>pdpb.PeerStats\<close>: the peer pointer may be nil; the generated getter \<open>GetId\<close> of a
  nil peer is 0.\<close>

record PeerStats =
  stats_Peer :: "Peer option"
  stats_DownSeconds :: nat

definition Peer_GetId :: "Peer option \<Rightarrow> nat" where
  "Peer_GetId p = (case p of None \<Rightarrow> 0 | Some q \<Rightarrow> peer_Id q)"

datatype StoreState = Up | Offline | Tombstone

text \<open>\<open>core.StoreInfo\<close> as seen by the checker: its state and the time since its last
  heartbeat (\<open>DownTime()\<close>, a \<open>time.Duration\<close>), taken at the moment of the check.\<close>

record StoreInfo =
  store_ID :: nat
  store_State :: StoreState
  store_DownTime :: int64

definition IsUp :: "StoreInfo \<Rightarrow> bool" where
  "IsUp s = (store_State s = Up)"

text \<open>\<open>core.RegionInfo\<close>: the parts read by the modelled functions.\<close>

record RegionInfo =
  region_ID :: nat
  region_StartKey :: bytes
  region_EndKey :: bytes
  region_ApproximateSize :: int64
  region_Peers :: "Peer list"
  region_Leader :: "Peer option"
  region_PendingPeers :: "Peer list"
  region_DownPeers :: "PeerStats list"

text \<open>The cluster as the rule checker sees it: \<open>GetStore\<close> (nil for an unknown store)
  and the option \<open>GetMaxStoreDownTime\<close>.\<close>

record CheckerCluster =
  GetStore :: "nat \<Rightarrow> StoreInfo option"
  GetMaxStoreDownTime :: int64

text \<open>The body of the \<open>for _, stats := range region.GetDownPeers()\<close> loop of
  \<open>isDownPeer\<close>: \<open>continue\<close> is the recursive call, \<open>return\<close> ends it.\<close>

fun isDownPeer_loop :: "CheckerCluster \<Rightarrow> PeerStats list \<Rightarrow> Peer \<Rightarrow> bool" where
  "isDownPeer_loop c [] peer = False"
| "isDownPeer_loop c (stats # rest) peer =
     (if Peer_GetId (stats_Peer stats) \<noteq> peer_Id peer then isDownPeer_loop c rest peer
      else (case GetStore c (peer_StoreId peer) of
              None \<Rightarrow> False
            | Some store \<Rightarrow>
                if store_DownTime store <s GetMaxStoreDownTime c
                then isDownPeer_loop c rest peer
                else True))"

definition isDownPeer :: "CheckerCluster \<Rightarrow> RegionInfo \<Rightarrow> Peer \<Rightarrow> bool" where
  "isDownPeer c region peer = isDownPeer_loop c (region_DownPeers region) peer"

definition isOfflinePeer :: "CheckerCluster \<Rightarrow> RegionInfo \<Rightarrow> Peer \<Rightarrow> bool" where
  "isOfflinePeer c region peer =
     (case GetStore c (peer_StoreId peer) of
        None \<Rightarrow> False
      | Some store \<Rightarrow> \<not> IsUp store)"

text \<open>The ids listed in the region's down-peer list.\<close>

definition downPeerIds :: "RegionInfo \<Rightarrow> nat list" where
  "downPeerIds region = map (\<lambda>stats. Peer_GetId (stats_Peer stats)) (region_DownPeers region)"

text \<open>Concrete data used to run the checker functions.\<close>

definition peerA :: Peer where
  "peerA = \<lparr>peer_Id = 11, peer_StoreId = 1, peer_IsLearner = False\<rparr>"

definition peerB :: Peer where
  "peerB = \<lparr>peer_Id = 12, peer_StoreId = 2, peer_IsLearner = False\<rparr>"

definition peerC :: Peer where
  "peerC = \<lparr>peer_Id = 13, peer_StoreId = 3, peer_IsLearner = False\<rparr>"

definition peerD :: Peer where
  "peerD = \<lparr>peer_Id = 14, peer_StoreId = 4, peer_IsLearner = False\<rparr>"

definition peerE :: Peer where
  "peerE = \<lparr>peer_Id = 15, peer_StoreId = 5, peer_IsLearner = False\<rparr>"

definition clusterX :: CheckerCluster where
  "clusterX = \<lparr>GetStore = (\<lambda>i.
       if i = 1 then Some \<lparr>store_ID = 1, store_State = Up, store_DownTime = 0\<rparr>
       else if i = 2 then Some \<lparr>store_ID = 2, store_State = Up, store_DownTime = 7200\<rparr>
       else if i = 3 then Some \<lparr>store_ID = 3, store_State = Offline, store_DownTime = 10\<rparr>
       else None),
     GetMaxStoreDownTime = 3600\<rparr>"

definition regionX :: RegionInfo where
  "regionX = \<lparr>region_ID = 100, region_StartKey = Some [97], region_EndKey = Some [109],
     region_ApproximateSize = 96, region_Peers = [peerA, peerB, peerC],
     region_Leader = Some peerA, region_PendingPeers = [],
     region_DownPeers = [\<lparr>stats_Peer = Some peerC, stats_DownSeconds = 10\<rparr>,
                         \<lparr>stats_Peer = Some peerB, stats_DownSeconds = 7200\<rparr>]\<rparr>"

section \<open>Rule checker: orphan peers (rule\_checker.go)\<close>

text \<open>\<open>placement.RuleFit\<close> and \<open>placement.RegionFit\<close>: the peers selected for a rule, and
  the rule fits of a region together with the peers no rule selected.\<close>

record RuleFit =
  fit_RuleID :: string
  fit_RuleCount :: nat
  fit_Peers :: "Peer list"
  fit_PeersWithDifferentRole :: "Peer list"

record RegionFit =
  RuleFits :: "RuleFit list"
  OrphanPeers :: "Peer list"

text \<open>
  What the rule checker calls outside rule\_checker.go, as parameters: \<open>RuleFit.IsSatisfied\<close>
  and \<open>cluster.FitRegion\<close> of the placement package, \<open>ruleManager.GetSplitKeys\<close>, and the
  operator constructors \<open>CreateRemovePeerOperator\<close> (description, region, store) and
  \<open>CreateSplitRegionOperator\<close> (description, region, keys). A constructor returns
  \<open>Inl err\<close>, or \<open>Inr None\<close> for no operator and no error, or \<open>Inr (Some op)\<close>; the type
  \<open>'op\<close> stands for \<open>*operator.Operator\<close>. \<open>fixRulePeer\<close> is the checker's repair of one
  rule fit; the orphan-peer logic does not look inside it.
\<close>

record 'op RuleCheckerEnv =
  IsSatisfied :: "RuleFit \<Rightarrow> bool"
  FitRegion :: "RegionInfo \<Rightarrow> RegionFit"
  GetSplitKeys :: "bytes \<Rightarrow> bytes \<Rightarrow> bytes list"
  CreateRemovePeerOperator :: "string \<Rightarrow> RegionInfo \<Rightarrow> nat \<Rightarrow> error + 'op option"
  CreateSplitRegionOperator :: "string \<Rightarrow> RegionInfo \<Rightarrow> bytes list \<Rightarrow> error + 'op option"
  fixRulePeer :: "RegionInfo \<Rightarrow> RegionFit \<Rightarrow> RuleFit \<Rightarrow> error + 'op option"

text \<open>The closure \<open>isUnhealthyPeer\<close> of \<open>fixOrphanPeers\<close>: the id is among the pending
  peers or among the down peers.\<close>

definition isUnhealthyPeer :: "RegionInfo \<Rightarrow> nat \<Rightarrow> bool" where
  "isUnhealthyPeer region i =
     (if list_ex (\<lambda>pendingPeer. peer_Id pendingPeer = i) (region_PendingPeers region) then True
      else if list_ex (\<lambda>downPeer. Peer_GetId (stats_Peer downPeer) = i) (region_DownPeers region)
      then True
      else False)"

text \<open>The labelled loop \<open>loopFits\<close>: it stops with \<open>hasUnhealthyFit = true\<close> at the first
  rule fit that is not satisfied or that selects an unhealthy peer.\<close>

fun hasUnhealthyFit :: "'op RuleCheckerEnv \<Rightarrow> RegionInfo \<Rightarrow> RuleFit list \<Rightarrow> bool" where
  "hasUnhealthyFit env region [] = False"
| "hasUnhealthyFit env region (rf # rest) =
     (if \<not> IsSatisfied env rf then True
      else if list_ex (\<lambda>p. isUnhealthyPeer region (peer_Id p)) (fit_Peers rf) then True
      else hasUnhealthyFit env region rest)"

definition fixOrphanPeers ::
  "'op RuleCheckerEnv \<Rightarrow> RegionInfo \<Rightarrow> RegionFit \<Rightarrow> error + 'op option" where
  "fixOrphanPeers env region fit =
     (case OrphanPeers fit of
        [] \<Rightarrow> Inr None
      | orphan0 # _ \<Rightarrow>
          if \<not> hasUnhealthyFit env region (RuleFits fit)
          then CreateRemovePeerOperator env ''remove-orphan-peer'' region (peer_StoreId orphan0)
          else if 2 \<le> length (OrphanPeers fit)
          then (case find (\<lambda>orphanPeer. isUnhealthyPeer region (peer_Id orphanPeer))
                       (OrphanPeers fit) of
                  Some orphanPeer \<Rightarrow>
                    CreateRemovePeerOperator env ''remove-orphan-peer'' region
                      (peer_StoreId orphanPeer)
                | None \<Rightarrow> Inr None)
          else Inr None)"

definition fixRange :: "'op RuleCheckerEnv \<Rightarrow> RegionInfo \<Rightarrow> 'op option" where
  "fixRange env region =
     (let keys = GetSplitKeys env (region_StartKey region) (region_EndKey region)
      in if length keys = 0 then None
         else (case CreateSplitRegionOperator env ''rule-split-region'' region keys of
                 Inl err \<Rightarrow> None
               | Inr op \<Rightarrow> op))"

text \<open>The loop of \<open>Check\<close> over the rule fits: an error or no operator goes on to the
  next fit.\<close>

fun Check_loop ::
  "'op RuleCheckerEnv \<Rightarrow> RegionInfo \<Rightarrow> RegionFit \<Rightarrow> RuleFit list \<Rightarrow> 'op option" where
  "Check_loop env region fit [] = None"
| "Check_loop env region fit (rf # rest) =
     (case fixRulePeer env region fit rf of
        Inl err \<Rightarrow> Check_loop env region fit rest
      | Inr None \<Rightarrow> Check_loop env region fit rest
      | Inr (Some op) \<Rightarrow> Some op)"

definition Check :: "'op RuleCheckerEnv \<Rightarrow> RegionInfo \<Rightarrow> 'op option" where
  "Check env region =
     (let fit = FitRegion env region
      in if length (RuleFits fit) = 0 then fixRange env region
         else (case fixOrphanPeers env region fit of
                 Inr (Some op) \<Rightarrow> Some op
               | _ \<Rightarrow> Check_loop env region fit (RuleFits fit)))"

text \<open>The condition of the claim in its own words: every rule fit is satisfied and no
  peer selected by a rule fit is pending or down.\<close>

definition allFitsHealthy :: "'op RuleCheckerEnv \<Rightarrow> RegionInfo \<Rightarrow> RegionFit \<Rightarrow> bool" where
  "allFitsHealthy env region fit =
     (\<forall>rf \<in> set (RuleFits fit).
        IsSatisfied env rf \<and>
        (\<forall>p \<in> set (fit_Peers rf). \<not> isUnhealthyPeer region (peer_Id p)))"

text \<open>Concrete data: an environment whose constructors succeed and name the store they
  remove, a region with four peers of which the fourth is pending, and three fits.\<close>

definition envX :: "string RuleCheckerEnv" where
  "envX = \<lparr>IsSatisfied = (\<lambda>rf. length (fit_Peers rf) = fit_RuleCount rf
                              \<and> fit_PeersWithDifferentRole rf = []),
     FitRegion = (\<lambda>region. \<lparr>RuleFits = [], OrphanPeers = region_Peers region\<rparr>),
     GetSplitKeys = (\<lambda>startKey endKey. []),
     CreateRemovePeerOperator = (\<lambda>desc region store.
        Inr (Some (if store = 4 then ''remove peer on store 4''
                   else if store = 5 then ''remove peer on store 5''
                   else ''remove peer''))),
     CreateSplitRegionOperator = (\<lambda>desc region keys. Inr (Some ''split'')),
     fixRulePeer = (\<lambda>region fit rf. Inr None)\<rparr>"

definition envH :: "string RuleCheckerEnv" where
  "envH = envX\<lparr>FitRegion := (\<lambda>region. \<lparr>RuleFits = [\<lparr>fit_RuleID = ''default'', fit_RuleCount = 3,
       fit_Peers = [peerA, peerB, peerC], fit_PeersWithDifferentRole = []\<rparr>],
     OrphanPeers = [peerD]\<rparr>)\<rparr>"

definition ruleFitX :: RuleFit where
  "ruleFitX = \<lparr>fit_RuleID = ''default'', fit_RuleCount = 3, fit_Peers = [peerA, peerB, peerC],
     fit_PeersWithDifferentRole = []\<rparr>"

definition regionY :: RegionInfo where
  "regionY = \<lparr>region_ID = 101, region_StartKey = Some [97], region_EndKey = Some [109],
     region_ApproximateSize = 96, region_Peers = [peerA, peerB, peerC, peerD, peerE],
     region_Leader = Some peerA, region_PendingPeers = [peerB, peerE], region_DownPeers = []\<rparr>"

definition regionZ :: RegionInfo where
  "regionZ = \<lparr>region_ID = 102, region_StartKey = Some [97], region_EndKey = Some [109],
     region_ApproximateSize = 96, region_Peers = [peerA, peerB, peerC, peerD],
     region_Leader = Some peerA, region_PendingPeers = [], region_DownPeers = []\<rparr>"

definition fitHealthy :: RegionFit where
  "fitHealthy = \<lparr>RuleFits = [ruleFitX], OrphanPeers = [peerD]\<rparr>"

definition fitTwoOrphans :: RegionFit where
  "fitTwoOrphans = \<lparr>RuleFits = [ruleFitX], OrphanPeers = [peerD, peerE]\<rparr>"

definition envT :: "string RuleCheckerEnv" where
  "envT = envX\<lparr>FitRegion := (\<lambda>region. fitTwoOrphans)\<rparr>"

definition regionW :: RegionInfo where
  "regionW = regionY\<lparr>region_PendingPeers := [peerB]\<rparr>"

section \<open>Operator steps: the influence of RemovePeer (operator package, step.go)\<close>

text \<open>\<open>storelimit.Type\<close>: the two store-limit buckets of a store.\<close>

datatype limit_Type = AddPeer_limit | RemovePeer_limit

text \<open>
  \<open>operator.StoreInfluence\<close>: the bookkeeping delta of one store. \<open>inf_StepCost\<close> is the
  map from bucket to accumulated cost (an absent entry reads 0).
\<close>

record StoreInfluence =
  inf_RegionSize :: int64
  inf_RegionCount :: int64
  inf_LeaderSize :: int64
  inf_LeaderCount :: int64
  inf_StepCost :: "limit_Type \<Rightarrow> int64"

text \<open>
  Modelled from the spec: \<open>OpInfluence\<close> and its \<open>GetStoreInfluence\<close> (operator/influence.go
  is not among the sources). The spec calls it the bookkeeping delta on the source and
  target store load; \<open>GetStoreInfluence\<close> hands out the entry of a store, a zero entry on
  first use, so the influence is a total function from store id to \<open>StoreInfluence\<close> and
  a step returns the updated function.
\<close>

type_synonym OpInfluence = "nat \<Rightarrow> StoreInfluence"

definition zeroInfluence :: StoreInfluence where
  "zeroInfluence = \<lparr>inf_RegionSize = 0, inf_RegionCount = 0, inf_LeaderSize = 0,
     inf_LeaderCount = 0, inf_StepCost = (\<lambda>t. 0)\<rparr>"

text \<open>
  What step.go takes from elsewhere, as parameters: \<open>StoreInfluence.AdjustStepCost\<close>
  (bucket, cost) and the constant \<open>storelimit.SmallRegionThreshold\<close>.
\<close>

record StoreLimitEnv =
  AdjustStepCost :: "limit_Type \<Rightarrow> int64 \<Rightarrow> StoreInfluence \<Rightarrow> StoreInfluence"
  SmallRegionThreshold :: int64

text \<open>The step \<open>RemovePeer\<close>, with the fields its \<open>Influence\<close> reads.\<close>

record RemovePeer =
  rp_FromStore :: nat
  rp_PeerID :: nat
  rp_IsDownStore :: bool

definition RemovePeer_Influence ::
  "StoreLimitEnv \<Rightarrow> RemovePeer \<Rightarrow> OpInfluence \<Rightarrow> RegionInfo \<Rightarrow> OpInfluence" where
  "RemovePeer_Influence env rp opInfluence region =
     (let from0 = opInfluence (rp_FromStore rp);
          regionSize = region_ApproximateSize region;
          from1 = from0\<lparr>inf_RegionSize := inf_RegionSize from0 - regionSize\<rparr>;
          from2 = from1\<lparr>inf_RegionCount := inf_RegionCount from1 - 1\<rparr>
      in if rp_IsDownStore rp
         then opInfluence(rp_FromStore rp :=
                AdjustStepCost env RemovePeer_limit (SmallRegionThreshold env) from2)
         else opInfluence(rp_FromStore rp :=
                AdjustStepCost env RemovePeer_limit regionSize from2))"

text \<open>A store-limit environment to run the step on: the cost is added to the bucket.\<close>

definition limitEnvX :: StoreLimitEnv where
  "limitEnvX = \<lparr>AdjustStepCost = (\<lambda>t cost s.
        s\<lparr>inf_StepCost := (inf_StepCost s)(t := inf_StepCost s t + cost)\<rparr>),
     SmallRegionThreshold = 20\<rparr>"

section \<open>Balance schedulers: shouldBalance (schedulers/utils.go)\<close>

datatype ResourceKind = LeaderKind | RegionKind

datatype SchedulePolicy = ByCount | BySize

record ScheduleKind =
  kind_Resource :: ResourceKind
  kind_Policy :: SchedulePolicy

text \<open>
  The cluster as \<open>shouldBalance\<close> reads it. \<open>cl_TolerantSizeRatio\<close> is the configured
  ratio that the type switch of \<open>adjustTolerantRatio\<close> selects (the range cluster's own
  or the one of the options); \<open>cl_Stores\<close> are the ids of \<open>GetStores()\<close>.
\<close>

record SchedCluster =
  cl_TolerantSizeRatio :: real
  cl_Stores :: "nat list"
  cl_StoreRegionCount :: "nat \<Rightarrow> int"
  cl_AverageRegionSize :: int64
  cl_RegionScoreFormulaVersion :: string
  cl_HighSpaceRatio :: real
  cl_LowSpaceRatio :: real

text \<open>
  What utils.go takes from the core and operator packages, as parameters: the scores
  \<open>StoreInfo.LeaderScore\<close> (policy, delta) and \<open>StoreInfo.RegionScore\<close> (version, high and
  low space ratio, delta, deviation), and \<open>StoreInfluence.ResourceProperty\<close>.
\<close>

record ScoreEnv =
  LeaderScore :: "StoreInfo \<Rightarrow> SchedulePolicy \<Rightarrow> int64 \<Rightarrow> real"
  RegionScore :: "StoreInfo \<Rightarrow> string \<Rightarrow> real \<Rightarrow> real \<Rightarrow> int64 \<Rightarrow> int \<Rightarrow> real"
  ResourceProperty :: "StoreInfluence \<Rightarrow> ScheduleKind \<Rightarrow> int64"

text \<open>The typed constant \<open>adjustRatio float64 = 0.005\<close> is the double nearest to 0.005.\<close>

definition adjustRatio :: real where
  "adjustRatio = float64_round 0.005"

definition leaderTolerantSizeRatio :: real where
  "leaderTolerantSizeRatio = 5.0"

definition minTolerantSizeRatio :: real where
  "minTolerantSizeRatio = 1.0"

text \<open>The loop of \<open>adjustTolerantRatio\<close> over the stores, from \<open>maxRegionCount = 0\<close>.\<close>

fun maxRegionCount_loop :: "SchedCluster \<Rightarrow> nat list \<Rightarrow> real \<Rightarrow> real" where
  "maxRegionCount_loop c [] maxRegionCount = maxRegionCount"
| "maxRegionCount_loop c (store # rest) maxRegionCount =
     (let regionCount = float64_of_int (cl_StoreRegionCount c store)
      in if maxRegionCount < regionCount
         then maxRegionCount_loop c rest regionCount
         else maxRegionCount_loop c rest maxRegionCount)"

definition adjustTolerantRatio :: "SchedCluster \<Rightarrow> real" where
  "adjustTolerantRatio c =
     (let tolerantSizeRatio = cl_TolerantSizeRatio c
      in if tolerantSizeRatio = 0
         then (let maxRegionCount = maxRegionCount_loop c (cl_Stores c) 0;
                   tolerantSizeRatio = float64_mul maxRegionCount adjustRatio
               in if tolerantSizeRatio < minTolerantSizeRatio then minTolerantSizeRatio
                  else tolerantSizeRatio)
         else tolerantSizeRatio)"

definition getTolerantResource :: "SchedCluster \<Rightarrow> RegionInfo \<Rightarrow> ScheduleKind \<Rightarrow> int64" where
  "getTolerantResource c region kind =
     (let tolerantSizeRatio = adjustTolerantRatio c
      in if kind_Resource kind = LeaderKind \<and> kind_Policy kind = ByCount
         then (let tolerantSizeRatio =
                     (if tolerantSizeRatio = 0 then leaderTolerantSizeRatio
                      else tolerantSizeRatio);
                   leaderCount = int64_of_float (float64_mul 1.0 tolerantSizeRatio)
               in leaderCount)
         else (let regionSize = region_ApproximateSize region;
                   regionSize = (if regionSize <s cl_AverageRegionSize c
                                 then cl_AverageRegionSize c else regionSize);
                   regionSize = int64_of_float
                                  (float64_mul (float64_of_int64 regionSize) tolerantSizeRatio)
               in regionSize))"

text \<open>\<open>shouldBalance\<close> returns the decision and the two scores.\<close>

definition shouldBalance ::
  "ScoreEnv \<Rightarrow> SchedCluster \<Rightarrow> StoreInfo \<Rightarrow> StoreInfo \<Rightarrow> RegionInfo \<Rightarrow> ScheduleKind
     \<Rightarrow> OpInfluence \<Rightarrow> bool \<times> real \<times> real" where
  "shouldBalance env c source target region kind opInfluence =
     (let sourceID = store_ID source;
          targetID = store_ID target;
          tolerantResource = getTolerantResource c region kind;
          sourceInfluence = ResourceProperty env (opInfluence sourceID) kind;
          targetInfluence = ResourceProperty env (opInfluence targetID) kind;
          sourceDelta = sourceInfluence - tolerantResource;
          targetDelta = targetInfluence + tolerantResource;
          (sourceScore, targetScore) =
            (case kind_Resource kind of
               LeaderKind \<Rightarrow>
                 (LeaderScore env source (kind_Policy kind) sourceDelta,
                  LeaderScore env target (kind_Policy kind) targetDelta)
             | RegionKind \<Rightarrow>
                 (RegionScore env source (cl_RegionScoreFormulaVersion c) (cl_HighSpaceRatio c)
                    (cl_LowSpaceRatio c) sourceDelta (- 1),
                  RegionScore env target (cl_RegionScoreFormulaVersion c) (cl_HighSpaceRatio c)
                    (cl_LowSpaceRatio c) targetDelta 1))
      in (targetScore < sourceScore, sourceScore, targetScore))"

text \<open>The claim's words for the two ingredients of the tolerant resource: the larger of
  the region's size and the cluster's average region size, and the largest per-store
  region count (0 with no store), as a \<open>float64\<close>. "Times" is the \<open>float64\<close> product.\<close>

definition maxSize :: "SchedCluster \<Rightarrow> RegionInfo \<Rightarrow> int64" where
  "maxSize c region =
     (if sint (region_ApproximateSize region) < sint (cl_AverageRegionSize c)
      then cl_AverageRegionSize c else region_ApproximateSize region)"

definition maxStoreRegionCount :: "SchedCluster \<Rightarrow> real" where
  "maxStoreRegionCount c =
     Max (insert 0 (set (map (\<lambda>store. float64_of_int (cl_StoreRegionCount c store))
                          (cl_Stores c))))"

definition tolerantSizeRatio_spec :: "SchedCluster \<Rightarrow> real" where
  "tolerantSizeRatio_spec c =
     (if cl_TolerantSizeRatio c = 0
      then max (float64_mul (maxStoreRegionCount c) (float64_round 0.005)) 1
      else cl_TolerantSizeRatio c)"

text \<open>Concrete data: a cluster of three stores with a configured ratio of 3, the same
  cluster with no configured ratio, scores that are the store's own count shifted by the
  delta.\<close>

definition schedClusterX :: SchedCluster where
  "schedClusterX = \<lparr>cl_TolerantSizeRatio = 3, cl_Stores = [1, 2, 3],
     cl_StoreRegionCount = (\<lambda>i. if i = 1 then 400 else if i = 2 then 100 else 50),
     cl_AverageRegionSize = 64, cl_RegionScoreFormulaVersion = ''v2'',
     cl_HighSpaceRatio = 0.7, cl_LowSpaceRatio = 0.8\<rparr>"

definition schedClusterY :: SchedCluster where
  "schedClusterY = schedClusterX\<lparr>cl_TolerantSizeRatio := 0\<rparr>"

text \<open>A cluster with no configured ratio whose largest store has 410 regions, and a region
  of size 100: here the rounding of the two \<open>float64\<close> products decides the result.\<close>

definition schedClusterV :: SchedCluster where
  "schedClusterV = \<lparr>cl_TolerantSizeRatio = 0, cl_Stores = [1, 2, 3],
     cl_StoreRegionCount = (\<lambda>i. if i = 1 then 410 else if i = 2 then 100 else 50),
     cl_AverageRegionSize = 64, cl_RegionScoreFormulaVersion = ''v2'',
     cl_HighSpaceRatio = 0.7, cl_LowSpaceRatio = 0.8\<rparr>"

definition regionV :: RegionInfo where
  "regionV = \<lparr>region_ID = 103, region_StartKey = Some [97], region_EndKey = Some [109],
     region_ApproximateSize = 100, region_Peers = [], region_Leader = None,
     region_PendingPeers = [], region_DownPeers = []\<rparr>"

definition scoreEnvX :: ScoreEnv where
  "scoreEnvX = \<lparr>LeaderScore = (\<lambda>store policy delta.
        (if store_ID store = 1 then 100 else 10) + real_of_int (sint delta)),
     RegionScore = (\<lambda>store version high low delta deviation.
        (if store_ID store = 1 then 1000 else 10) + real_of_int (sint delta)),
     ResourceProperty = (\<lambda>infl kind.
        case kind_Resource kind of LeaderKind \<Rightarrow> inf_LeaderCount infl
        | RegionKind \<Rightarrow> inf_RegionSize infl)\<rparr>"

definition storeOne :: StoreInfo where
  "storeOne = \<lparr>store_ID = 1, store_State = Up, store_DownTime = 0\<rparr>"

definition storeTwo :: StoreInfo where
  "storeTwo = \<lparr>store_ID = 2, store_State = Up, store_DownTime = 0\<rparr>"

definition leaderByCount :: ScheduleKind where
  "leaderByCount = \<lparr>kind_Resource = LeaderKind, kind_Policy = ByCount\<rparr>"

definition regionBySize :: ScheduleKind where
  "regionBySize = \<lparr>kind_Resource = RegionKind, kind_Policy = BySize\<rparr>"

section \<open>Coordinator: suspect key ranges and pausing schedulers (cluster/coordinator.go)\<close>

text \<open>
  The part of \<open>RaftCluster\<close> behind \<open>AddSuspectRegions\<close>, \<open>AddSuspectKeyRange\<close> and
  \<open>PopOneSuspectKeyRange\<close>: the cache of suspect region ids and the cache of suspect key
  ranges, keyed by a string and holding the pair of start and end key.
\<close>

record RaftCluster =
  suspectRegions :: "nat set"
  suspectKeyRanges :: "string \<Rightarrow> (bytes \<times> bytes) option"

text \<open>
  What \<open>checkSuspectKeyRanges\<close> takes from elsewhere, as parameters: \<open>cluster.ScanRegions\<close>
  (start key, end key, limit), \<open>keyutil.BuildKeyRangeKey\<close>, and which entry the cache's
  \<open>Pop\<close> takes (\<open>None\<close> when it takes none).
\<close>

record SuspectEnv =
  ScanRegions :: "bytes \<Rightarrow> bytes \<Rightarrow> int \<Rightarrow> RegionInfo list"
  BuildKeyRangeKey :: "bytes \<Rightarrow> bytes \<Rightarrow> string"
  popChoice :: "(string \<Rightarrow> (bytes \<times> bytes) option) \<Rightarrow> string option"

text \<open>Go's \<open>bytes.Compare\<close>: lexicographic on the bytes, a nil slice being empty.\<close>

fun bytes_Compare :: "8 word list \<Rightarrow> 8 word list \<Rightarrow> int" where
  "bytes_Compare [] [] = 0"
| "bytes_Compare [] (y # ys) = - 1"
| "bytes_Compare (x # xs) [] = 1"
| "bytes_Compare (x # xs) (y # ys) =
     (if x < y then - 1 else if y < x then 1 else bytes_Compare xs ys)"

text \<open>
  Modelled from the spec: the cluster's wrappers \<open>PopOneSuspectKeyRange\<close>,
  \<open>AddSuspectKeyRange\<close> and \<open>AddSuspectRegions\<close> (cluster.go and the cache package are not
  among the sources). The spec keys the queue of suspect key ranges by
  \<open>BuildKeyRangeKey\<close> with the pair of keys as value, and pops one entry at a time;
  checker\_controller.go shows the same operations as \<open>Put\<close> and \<open>Pop\<close> on the two caches.
  Popping removes the entry and returns its key and value; adding stores under the key;
  adding regions stores each id.
\<close>

definition PopOneSuspectKeyRange ::
  "SuspectEnv \<Rightarrow> RaftCluster \<Rightarrow> (string \<times> bytes \<times> bytes) option \<times> RaftCluster" where
  "PopOneSuspectKeyRange env cl =
     (case popChoice env (suspectKeyRanges cl) of
        None \<Rightarrow> (None, cl)
      | Some k \<Rightarrow>
          (case suspectKeyRanges cl k of
             None \<Rightarrow> (None, cl)
           | Some keyRange \<Rightarrow>
               (Some (k, keyRange),
                cl\<lparr>suspectKeyRanges := (suspectKeyRanges cl)(k := None)\<rparr>)))"

definition AddSuspectKeyRange :: "string \<Rightarrow> bytes \<times> bytes \<Rightarrow> RaftCluster \<Rightarrow> RaftCluster" where
  "AddSuspectKeyRange k keyRange cl =
     cl\<lparr>suspectKeyRanges := (suspectKeyRanges cl)(k := Some keyRange)\<rparr>"

fun AddSuspectRegions :: "nat list \<Rightarrow> RaftCluster \<Rightarrow> RaftCluster" where
  "AddSuspectRegions [] cl = cl"
| "AddSuspectRegions (regionID # rest) cl =
     AddSuspectRegions rest (cl\<lparr>suspectRegions := insert regionID (suspectRegions cl)\<rparr>)"

definition checkSuspectKeyRanges :: "SuspectEnv \<Rightarrow> RaftCluster \<Rightarrow> RaftCluster" where
  "checkSuspectKeyRanges env cl =
     (case PopOneSuspectKeyRange env cl of
        (None, cl1) \<Rightarrow> cl1
      | (Some (k, keyRange), cl1) \<Rightarrow>
          (let limit = 1024;
               regions = ScanRegions env (fst keyRange) (snd keyRange) limit
           in if length regions = 0 then cl1
              else (let regionIDList = map region_ID regions;
                        lastRegion = last regions;
                        cl2 = (if region_EndKey lastRegion \<noteq> None \<and>
                                  bytes_Compare (bytes_of (region_EndKey lastRegion))
                                    (bytes_of (snd keyRange)) < 0
                               then AddSuspectKeyRange
                                      (BuildKeyRangeKey env (region_EndKey lastRegion)
                                         (snd keyRange))
                                      (region_EndKey lastRegion, snd keyRange) cl1
                               else cl1)
                    in AddSuspectRegions regionIDList cl2)))"

text \<open>
  \<open>scheduleController\<close>: the pause deadline \<open>delayUntil\<close> (Unix seconds) and the answer of
  the wrapped scheduler's \<open>IsScheduleAllowed\<close>. The clock reading \<open>time.Now().Unix()\<close> is
  an argument.
\<close>

record scheduleController =
  sc_delayUntil :: int64
  sc_IsScheduleAllowed :: bool

definition IsPaused :: "int64 \<Rightarrow> scheduleController \<Rightarrow> bool" where
  "IsPaused now s = (let delayUntil = sc_delayUntil s in now <s delayUntil)"

definition AllowSchedule :: "int64 \<Rightarrow> scheduleController \<Rightarrow> bool" where
  "AllowSchedule now s = (sc_IsScheduleAllowed s \<and> \<not> IsPaused now s)"

text \<open>The coordinator: its cluster pointer (nil before bootstrap) and the registered
  schedulers by name.\<close>

record coordinator =
  co_cluster :: "RaftCluster option"
  co_schedulers :: "string \<Rightarrow> scheduleController option"

text \<open>The body of the loop \<open>for _, sc := range s\<close> of \<open>pauseOrResumeScheduler\<close>.\<close>

definition storeDelayUntil :: "int64 \<Rightarrow> int64 \<Rightarrow> scheduleController \<Rightarrow> scheduleController" where
  "storeDelayUntil now t sc =
     (let delayUntil = (if 0 <s t then now + t else 0)
      in sc\<lparr>sc_delayUntil := delayUntil\<rparr>)"

text \<open>
  \<open>pauseOrResumeScheduler\<close> returns the error (\<open>None\<close> for nil) and the coordinator.
  \<open>clock n\<close> is the reading of \<open>time.Now().Unix()\<close> in the loop iteration of the scheduler
  named \<open>n\<close>.
\<close>

definition pauseOrResumeScheduler ::
  "(string \<Rightarrow> int64) \<Rightarrow> string \<Rightarrow> int64 \<Rightarrow> coordinator \<Rightarrow> error option \<times> coordinator" where
  "pauseOrResumeScheduler clock name t c =
     (if co_cluster c = None then (Some ErrNotBootstrapped, c)
      else if name \<noteq> ''all''
      then (case co_schedulers c name of
              None \<Rightarrow> (Some ErrSchedulerNotFound, c)
            | Some sc \<Rightarrow>
                (None, c\<lparr>co_schedulers :=
                           (co_schedulers c)(name := Some (storeDelayUntil (clock name) t sc))\<rparr>))
      else (None, c\<lparr>co_schedulers :=
                      (\<lambda>n. map_option (storeDelayUntil (clock n) t) (co_schedulers c n))\<rparr>))"

text \<open>Concrete data for the coordinator functions.\<close>

definition emptyCluster :: RaftCluster where
  "emptyCluster = \<lparr>suspectRegions = {}, suspectKeyRanges = (\<lambda>k. None)\<rparr>"

definition coordX :: coordinator where
  "coordX = \<lparr>co_cluster = Some emptyCluster,
     co_schedulers = (\<lambda>n. if n = ''balance-leader-scheduler''
        then Some \<lparr>sc_delayUntil = 1700000500, sc_IsScheduleAllowed = True\<rparr> else None)\<rparr>"

definition coordNil :: coordinator where
  "coordNil = coordX\<lparr>co_cluster := None\<rparr>"

definition suspectEnvX :: SuspectEnv where
  "suspectEnvX = \<lparr>ScanRegions = (\<lambda>startKey endKey limit.
        if bytes_of startKey = [97]
        then [\<lparr>region_ID = 100, region_StartKey = Some [97], region_EndKey = Some [109],
                region_ApproximateSize = 96, region_Peers = [], region_Leader = None,
                region_PendingPeers = [], region_DownPeers = []\<rparr>,
              \<lparr>region_ID = 101, region_StartKey = Some [109], region_EndKey = Some [116],
                region_ApproximateSize = 96, region_Peers = [], region_Leader = None,
                region_PendingPeers = [], region_DownPeers = []\<rparr>]
        else []),
     BuildKeyRangeKey = (\<lambda>startKey endKey.
        if bytes_of startKey = [116] then ''74-7a'' else ''61-7a''),
     popChoice = (\<lambda>m. if m ''61-7a'' \<noteq> None then Some ''61-7a''
                       else if m ''74-7a'' \<noteq> None then Some ''74-7a''
                       else if m ''61-6d'' \<noteq> None then Some ''61-6d'' else None)\<rparr>"

definition suspectClusterX :: RaftCluster where
  "suspectClusterX = \<lparr>suspectRegions = {7},
     suspectKeyRanges = (\<lambda>k. if k = ''61-7a'' then Some (Some [97], Some [122]) else None)\<rparr>"

definition suspectClusterY :: RaftCluster where
  "suspectClusterY = \<lparr>suspectRegions = {7},
     suspectKeyRanges = (\<lambda>k. if k = ''74-7a'' then Some (Some [116], Some [122]) else None)\<rparr>"

definition suspectClusterZ :: RaftCluster where
  "suspectClusterZ = \<lparr>suspectRegions = {7},
     suspectKeyRanges = (\<lambda>k. if k = ''61-6d'' then Some (Some [97], Some [109]) else None)\<rparr>"

section \<open>Hot-peer cache (statistics package: hot\_peer.go and hot\_peer\_cache.go)\<close>

datatype FlowKind = WriteFlow | ReadFlow

text \<open>The two dimensions \<open>byteDim\<close> and \<open>keyDim\<close>; arrays of length \<open>dimLen\<close> are functions
  from \<open>dim\<close>.\<close>

datatype dim = byteDim | keyDim

text \<open>Where the old item of a new item comes from: its own entry, the entry of the store
  the region left, or the entry of a sibling store.\<close>

datatype sourceKind = direct | inherit | adopt

datatype go_panic = NilPointerDereference

text \<open>
  The movingaverage package is not among the sources. A \<open>TimeMedian\<close> or \<open>AvgOverTime\<close>
  is represented by the calls made on it since \<open>New...\<close>, newest first: \<open>MaAdd delta
  interval\<close> for \<open>Add\<close> (the interval a \<open>time.Duration\<close> in nanoseconds) and \<open>MaClear\<close> for
  \<open>Clear\<close>. What \<open>Get\<close> and \<open>IsFull\<close> answer after these calls are parameters (in \<open>HotEnv\<close>
  below). A clone is a copy of the value.
\<close>

datatype ma_event = MaAdd real int64 | MaClear

record dimStat =
  ds_typ :: dim
  ds_Rolling :: "ma_event list"
  ds_LastAverage :: "ma_event list"

text \<open>\<open>HotPeerStat\<close>, with the fields hot\_peer\_cache.go reads and writes. A nil
  \<open>*dimStat\<close> is \<open>None\<close>.\<close>

record HotPeerStat =
  hp_StoreID :: nat
  hp_RegionID :: nat
  HotDegree :: int64
  AntiCount :: int64
  hp_Kind :: FlowKind
  ByteRate :: real
  KeyRate :: real
  rollingByteRate :: "dimStat option"
  rollingKeyRate :: "dimStat option"
  LastUpdateTime :: int64
  needDelete :: bool
  isLeader :: bool
  isNew :: bool
  justTransferLeader :: bool
  hp_interval :: nat
  thresholds :: "dim \<Rightarrow> real"
  hp_peers :: "nat list"
  lastTransferLeaderTime :: int64
  allowAdopt :: bool
  hp_source :: sourceKind

text \<open>
  Modelled from the spec: \<open>TopN\<close> (topn.go is not among the sources). The spec keeps per
  store a TopN of \<open>HotPeerStat\<close> with capacity 60; here it is the list of the items it
  holds, one per region id. \<open>Put\<close> inserts or replaces the item of a region, \<open>Remove\<close>
  deletes it, \<open>Get\<close> looks it up and \<open>Len\<close> counts the items. Expiry by TTL is outside the
  model, and \<open>GetTopNMin\<close> is a parameter.
\<close>

type_synonym TopN = "(nat \<times> HotPeerStat) list"

definition NewTopN :: TopN where
  "NewTopN = []"

definition TopN_Get :: "nat \<Rightarrow> TopN \<Rightarrow> HotPeerStat option" where
  "TopN_Get regionID tn = map_of tn regionID"

definition TopN_Remove :: "nat \<Rightarrow> TopN \<Rightarrow> TopN" where
  "TopN_Remove regionID tn = filter (\<lambda>entry. fst entry \<noteq> regionID) tn"

definition TopN_Put :: "HotPeerStat \<Rightarrow> TopN \<Rightarrow> TopN" where
  "TopN_Put item tn = (hp_RegionID item, item) # TopN_Remove (hp_RegionID item) tn"

definition TopN_Len :: "TopN \<Rightarrow> nat" where
  "TopN_Len tn = length tn"

text \<open>
  What the cache takes from elsewhere, as parameters: what \<open>TimeMedian.Get\<close>,
  \<open>AvgOverTime.Get\<close> and \<open>AvgOverTime.IsFull\<close> answer, the constant
  \<open>RegionHeartBeatReportInterval\<close> (seconds), and \<open>TopN.GetTopNMin\<close>, the item that is the
  minimum of the top N in a dimension.
\<close>

record HotEnv =
  tm_Get :: "ma_event list \<Rightarrow> real"
  aot_Get :: "ma_event list \<Rightarrow> real"
  aot_IsFull :: "ma_event list \<Rightarrow> bool"
  RegionHeartBeatReportInterval :: int
  GetTopNMin :: "dim \<Rightarrow> TopN \<Rightarrow> HotPeerStat"

definition TopNN :: nat where
  "TopNN = 60"

definition HotThresholdRatio :: real where
  "HotThresholdRatio = 0.8"

definition hotRegionAntiCount :: int64 where
  "hotRegionAntiCount = 2"

definition minHotThresholds :: "FlowKind \<Rightarrow> dim \<Rightarrow> real" where
  "minHotThresholds kind k =
     (case kind of
        WriteFlow \<Rightarrow> (case k of byteDim \<Rightarrow> 1 * 1024 | keyDim \<Rightarrow> 32)
      | ReadFlow \<Rightarrow> (case k of byteDim \<Rightarrow> 8 * 1024 | keyDim \<Rightarrow> 128))"

text \<open>\<open>time.Duration.Seconds\<close>: the whole seconds plus the remaining nanoseconds over
  \<open>1e9\<close>, in \<open>float64\<close>. \<open>math.Round\<close> rounds half away from zero.\<close>

definition Seconds :: "int64 \<Rightarrow> real" where
  "Seconds d =
     (let sec = go_quot (sint d) 1000000000;
          nsec = go_rem (sint d) 1000000000
      in float64_add (float64_of_int sec) (float64_div (float64_of_int nsec) 1000000000))"

definition go_Round :: "real \<Rightarrow> real" where
  "go_Round x = (if 0 \<le> x then real_of_int \<lfloor>x + 1 / 2\<rfloor> else - real_of_int \<lfloor>- x + 1 / 2\<rfloor>)"

subsection \<open>dimStat\<close>

definition newDimStat :: "dim \<Rightarrow> dimStat" where
  "newDimStat typ = \<lparr>ds_typ = typ, ds_Rolling = [], ds_LastAverage = []\<rparr>"

definition dimStat_Add :: "real \<Rightarrow> int64 \<Rightarrow> dimStat \<Rightarrow> dimStat" where
  "dimStat_Add delta interval d =
     d\<lparr>ds_LastAverage := MaAdd delta interval # ds_LastAverage d,
       ds_Rolling := MaAdd delta interval # ds_Rolling d\<rparr>"

definition dimStat_isLastAverageHot :: "HotEnv \<Rightarrow> dimStat \<Rightarrow> (dim \<Rightarrow> real) \<Rightarrow> bool" where
  "dimStat_isLastAverageHot env d thr = (thr (ds_typ d) \<le> aot_Get env (ds_LastAverage d))"

definition dimStat_isFull :: "HotEnv \<Rightarrow> dimStat \<Rightarrow> bool" where
  "dimStat_isFull env d = aot_IsFull env (ds_LastAverage d)"

definition dimStat_clearLastAverage :: "dimStat \<Rightarrow> dimStat" where
  "dimStat_clearLastAverage d = d\<lparr>ds_LastAverage := MaClear # ds_LastAverage d\<rparr>"

definition dimStat_Get :: "HotEnv \<Rightarrow> dimStat \<Rightarrow> real" where
  "dimStat_Get env d = tm_Get env (ds_Rolling d)"

definition dimStat_Clone :: "dimStat \<Rightarrow> dimStat" where
  "dimStat_Clone d = \<lparr>ds_typ = ds_typ d, ds_Rolling = ds_Rolling d,
     ds_LastAverage = ds_LastAverage d\<rparr>"

subsection \<open>HotPeerStat\<close>

definition IsNeedDelete :: "HotPeerStat \<Rightarrow> bool" where
  "IsNeedDelete stat = needDelete stat"

definition GetByteRate :: "HotEnv \<Rightarrow> HotPeerStat \<Rightarrow> real" where
  "GetByteRate env stat =
     (case rollingByteRate stat of
        None \<Rightarrow> go_Round (ByteRate stat)
      | Some d \<Rightarrow> go_Round (dimStat_Get env d))"

definition GetKeyRate :: "HotEnv \<Rightarrow> HotPeerStat \<Rightarrow> real" where
  "GetKeyRate env stat =
     (case rollingKeyRate stat of
        None \<Rightarrow> go_Round (KeyRate stat)
      | Some d \<Rightarrow> go_Round (dimStat_Get env d))"

text \<open>\<open>isFullAndHot\<close> and \<open>clearLastAverage\<close> are only called on items whose two rolling
  statistics are set; with a nil one the model answers false and clears nothing.\<close>

definition isFullAndHot :: "HotEnv \<Rightarrow> HotPeerStat \<Rightarrow> bool" where
  "isFullAndHot env stat =
     (case (rollingByteRate stat, rollingKeyRate stat) of
        (Some b, Some k) \<Rightarrow>
          (dimStat_isFull env b \<and> dimStat_isLastAverageHot env b (thresholds stat)) \<or>
          (dimStat_isFull env k \<and> dimStat_isLastAverageHot env k (thresholds stat))
      | _ \<Rightarrow> False)"

definition clearLastAverage :: "HotPeerStat \<Rightarrow> HotPeerStat" where
  "clearLastAverage stat =
     stat\<lparr>rollingByteRate := map_option dimStat_clearLastAverage (rollingByteRate stat),
          rollingKeyRate := map_option dimStat_clearLastAverage (rollingKeyRate stat)\<rparr>"

subsection \<open>hotPeerCache\<close>

record hotPeerCache =
  hc_kind :: FlowKind
  peersOfStore :: "nat \<Rightarrow> TopN option"
  storesOfRegion :: "nat \<Rightarrow> nat set option"

definition Update :: "hotPeerCache \<Rightarrow> HotPeerStat \<Rightarrow> hotPeerCache" where
  "Update f item =
     (if IsNeedDelete item
      then (let f1 = (case peersOfStore f (hp_StoreID item) of
                        Some peers \<Rightarrow>
                          f\<lparr>peersOfStore := (peersOfStore f)
                              (hp_StoreID item := Some (TopN_Remove (hp_RegionID item) peers))\<rparr>
                      | None \<Rightarrow> f)
            in (case storesOfRegion f1 (hp_RegionID item) of
                  Some stores \<Rightarrow>
                    f1\<lparr>storesOfRegion := (storesOfRegion f1)
                         (hp_RegionID item := Some (stores - {hp_StoreID item}))\<rparr>
                | None \<Rightarrow> f1))
      else (let peers = (case peersOfStore f (hp_StoreID item) of
                           Some peers \<Rightarrow> peers
                         | None \<Rightarrow> NewTopN);
                f1 = f\<lparr>peersOfStore := (peersOfStore f)
                        (hp_StoreID item := Some (TopN_Put item peers))\<rparr>;
                stores = (case storesOfRegion f1 (hp_RegionID item) of
                            Some stores \<Rightarrow> stores
                          | None \<Rightarrow> {})
            in f1\<lparr>storesOfRegion := (storesOfRegion f1)
                    (hp_RegionID item := Some (insert (hp_StoreID item) stores))\<rparr>))"

definition getOldHotPeerStat :: "hotPeerCache \<Rightarrow> nat \<Rightarrow> nat \<Rightarrow> HotPeerStat option" where
  "getOldHotPeerStat f regionID storeID =
     (case peersOfStore f storeID of
        Some hotPeers \<Rightarrow> TopN_Get regionID hotPeers
      | None \<Rightarrow> None)"

definition calcHotThresholds :: "HotEnv \<Rightarrow> hotPeerCache \<Rightarrow> nat \<Rightarrow> dim \<Rightarrow> real" where
  "calcHotThresholds env f storeID =
     (let minThresholds = minHotThresholds (hc_kind f)
      in case peersOfStore f storeID of
           None \<Rightarrow> minThresholds
         | Some tn \<Rightarrow>
             if TopN_Len tn < TopNN then minThresholds
             else (let ret = (\<lambda>k. case k of
                                byteDim \<Rightarrow> GetByteRate env (GetTopNMin env byteDim tn)
                              | keyDim \<Rightarrow> GetKeyRate env (GetTopNMin env keyDim tn))
                   in (\<lambda>k. max (float64_mul (ret k) (float64_round HotThresholdRatio))
                                (minThresholds k))))"

definition isOldColdPeer :: "hotPeerCache \<Rightarrow> HotPeerStat \<Rightarrow> nat \<Rightarrow> bool" where
  "isOldColdPeer f oldItem storeID =
     (let isOldPeer = list_ex (\<lambda>i. i = storeID) (hp_peers oldItem);
          noInCache = (case storesOfRegion f (hp_RegionID oldItem) of
                         Some ids \<Rightarrow> storeID \<notin> ids
                       | None \<Rightarrow> True)
      in isOldPeer \<and> noInCache)"

text \<open>
  \<open>updateHotPeerStat\<close>: \<open>Inr None\<close> is the nil result, \<open>Inl\<close> a panic on a nil rolling
  statistic of the old item. \<open>now\<close> is the reading of \<open>time.Now()\<close>, \<open>interval\<close> a
  \<open>time.Duration\<close>.
\<close>

definition updateHotPeerStat ::
  "HotEnv \<Rightarrow> hotPeerCache \<Rightarrow> int64 \<Rightarrow> HotPeerStat \<Rightarrow> HotPeerStat option \<Rightarrow> real \<Rightarrow> real
     \<Rightarrow> int64 \<Rightarrow> go_panic + HotPeerStat option" where
  "updateHotPeerStat env f now newItem oldItem bytes keys interval =
     (if needDelete newItem then Inr (Some newItem)
      else case oldItem of
        None \<Rightarrow>
          if interval = 0 then Inr None
          else
            (let isHot = (thresholds newItem byteDim \<le> float64_div bytes (Seconds interval) \<or>
                          thresholds newItem keyDim \<le> float64_div keys (Seconds interval))
             in if \<not> isHot then Inr None
                else
                  (let n1 = (if float64_of_int (RegionHeartBeatReportInterval env)
                                  \<le> Seconds interval
                             then newItem\<lparr>HotDegree := 1, AntiCount := hotRegionAntiCount,
                                    allowAdopt := True\<rparr>
                             else newItem);
                       byteStat = dimStat_Add bytes interval (newDimStat byteDim);
                       keyStat = dimStat_Add keys interval (newDimStat keyDim);
                       n2 = n1\<lparr>isNew := True, rollingByteRate := Some byteStat,
                              rollingKeyRate := Some keyStat\<rparr>
                   in if dimStat_isFull env keyStat then Inr (Some (clearLastAverage n2))
                      else Inr (Some n2)))
      | Some old \<Rightarrow>
          if hp_source newItem = adopt \<and>
             (rollingByteRate old = None \<or> rollingKeyRate old = None)
          then Inl NilPointerDereference
          else
            (let n1 = (if hp_source newItem = adopt
                       then newItem\<lparr>rollingByteRate := map_option dimStat_Clone (rollingByteRate old),
                              rollingKeyRate := map_option dimStat_Clone (rollingKeyRate old),
                              allowAdopt := False\<rparr>
                       else newItem\<lparr>rollingByteRate := rollingByteRate old,
                              rollingKeyRate := rollingKeyRate old,
                              allowAdopt := allowAdopt old\<rparr>)
             in if justTransferLeader n1
                then Inr (Some (n1\<lparr>HotDegree := HotDegree old, AntiCount := AntiCount old,
                                  lastTransferLeaderTime := now\<rparr>))
                else
                  (case (rollingByteRate n1, rollingKeyRate n1) of
                     (Some b, Some k) \<Rightarrow>
                       (let n2 = n1\<lparr>lastTransferLeaderTime := lastTransferLeaderTime old,
                                   rollingByteRate := Some (dimStat_Add bytes interval b),
                                   rollingKeyRate := Some (dimStat_Add keys interval k)\<rparr>
                        in if \<not> dimStat_isFull env (dimStat_Add keys interval k)
                           then Inr (Some (n2\<lparr>HotDegree := HotDegree old,
                                             AntiCount := AntiCount old\<rparr>))
                           else
                             (let n3 =
                                (if isOldColdPeer f old (hp_StoreID n2)
                                 then (if isFullAndHot env n2
                                       then n2\<lparr>HotDegree := 1, allowAdopt := True,
                                              AntiCount := hotRegionAntiCount\<rparr>
                                       else n2\<lparr>needDelete := True\<rparr>)
                                 else (if isFullAndHot env n2
                                       then n2\<lparr>HotDegree := HotDegree old + 1,
                                              AntiCount := hotRegionAntiCount,
                                              allowAdopt := True\<rparr>
                                       else (let n4 = n2\<lparr>HotDegree := HotDegree old - 1,
                                                        AntiCount := AntiCount old - 1\<rparr>
                                             in if AntiCount n4 \<le>s 0
                                                then n4\<lparr>needDelete := True\<rparr>
                                                else n4\<lparr>allowAdopt := True\<rparr>)))
                              in Inr (Some (clearLastAverage n3))))
                   | _ \<Rightarrow> Inl NilPointerDereference)))"

text \<open>The claim's words "the last-average rate is hot": after this heartbeat's sample
  is added to the old statistics \<open>b\<close> and \<open>k\<close>, one of them is full with a last average at
  or above its threshold.\<close>

definition lastAverageHot ::
  "HotEnv \<Rightarrow> (dim \<Rightarrow> real) \<Rightarrow> dimStat \<Rightarrow> dimStat \<Rightarrow> real \<Rightarrow> real \<Rightarrow> int64 \<Rightarrow> bool" where
  "lastAverageHot env thr b k bytes keys interval =
     ((dimStat_isFull env (dimStat_Add bytes interval b) \<and>
       dimStat_isLastAverageHot env (dimStat_Add bytes interval b) thr) \<or>
      (dimStat_isFull env (dimStat_Add keys interval k) \<and>
       dimStat_isLastAverageHot env (dimStat_Add keys interval k) thr))"

text \<open>
  Concrete data to run the cache on. The environment stands in for the moving
  averages and the top-N list, which are not among the sources: it averages the samples
  since the last \<open>Clear\<close> and is full once they cover 60 seconds; the rate of the newest
  sample stands in for the median; the top-N minimum is the first item held, and the
  report interval is 60 seconds.
\<close>

fun aot_sums :: "ma_event list \<Rightarrow> real \<times> int" where
  "aot_sums [] = (0, 0)"
| "aot_sums (MaClear # rest) = (0, 0)"
| "aot_sums (MaAdd delta interval # rest) =
     (fst (aot_sums rest) + delta, snd (aot_sums rest) + sint interval)"

definition itemZero :: HotPeerStat where
  "itemZero = \<lparr>hp_StoreID = 1, hp_RegionID = 100, HotDegree = 0, AntiCount = 0,
     hp_Kind = WriteFlow, ByteRate = 100000, KeyRate = 0, rollingByteRate = None,
     rollingKeyRate = None, LastUpdateTime = 1700000000, needDelete = False, isLeader = True,
     isNew = False, justTransferLeader = False, hp_interval = 60,
     thresholds = minHotThresholds WriteFlow, hp_peers = [1, 2, 3],
     lastTransferLeaderTime = 0, allowAdopt = False, hp_source = direct\<rparr>"

definition hotEnvX :: HotEnv where
  "hotEnvX = \<lparr>tm_Get = (\<lambda>h. case h of
                          MaAdd delta interval # rest \<Rightarrow>
                            delta / (real_of_int (sint interval) / 1000000000)
                        | _ \<Rightarrow> 0),
     aot_Get = (\<lambda>h. if snd (aot_sums h) < 1000000000 then 0
                     else fst (aot_sums h) / (real_of_int (snd (aot_sums h)) / 1000000000)),
     aot_IsFull = (\<lambda>h. 60000000000 \<le> snd (aot_sums h)),
     RegionHeartBeatReportInterval = 60,
     GetTopNMin = (\<lambda>k tn. case tn of [] \<Rightarrow> itemZero | entry # rest \<Rightarrow> snd entry)\<rparr>"

definition oldItemX :: HotPeerStat where
  "oldItemX = itemZero\<lparr>HotDegree := 3, AntiCount := 2,
     rollingByteRate := Some (newDimStat byteDim), rollingKeyRate := Some (newDimStat keyDim),
     allowAdopt := True, LastUpdateTime := 1699999940\<rparr>"

definition cacheX :: hotPeerCache where
  "cacheX = \<lparr>hc_kind = WriteFlow,
     peersOfStore = (\<lambda>s. if s = 1 then Some [(100, oldItemX)] else None),
     storesOfRegion = (\<lambda>r. if r = 100 then Some {1} else None)\<rparr>"

definition topNFull :: TopN where
  "topNFull = map (\<lambda>i. (i, itemZero\<lparr>hp_RegionID := i, ByteRate := 1282\<rparr>)) [100..<160]"

text \<open>A heartbeat item whose byte threshold is the \<open>float64\<close> product of 1283 and 0.8.\<close>

definition itemEdge :: HotPeerStat where
  "itemEdge = itemZero\<lparr>thresholds := (\<lambda>k. case k of
       byteDim \<Rightarrow> float64_mul 1283 (float64_round 0.8) | keyDim \<Rightarrow> 32)\<rparr>"

text \<open>A heartbeat item whose byte threshold is the \<open>float64\<close> product of 1282 and 0.8.\<close>

definition itemLow :: HotPeerStat where
  "itemLow = itemZero\<lparr>thresholds := (\<lambda>k. case k of
       byteDim \<Rightarrow> float64_mul 1282 (float64_round 0.8) | keyDim \<Rightarrow> 32)\<rparr>"

definition cacheFull :: hotPeerCache where
  "cacheFull = \<lparr>hc_kind = WriteFlow,
     peersOfStore = (\<lambda>s. if s = 1 then Some topNFull else None),
     storesOfRegion = (\<lambda>r. if 100 \<le> r \<and> r < 160 then Some {1} else None)\<rparr>"

definition oldItemY :: HotPeerStat where
  "oldItemY = oldItemX\<lparr>hp_StoreID := 3\<rparr>"

definition cacheY :: hotPeerCache where
  "cacheY = \<lparr>hc_kind = WriteFlow,
     peersOfStore = (\<lambda>s. if s = 3 then Some [(100, oldItemY)] else None),
     storesOfRegion = (\<lambda>r. if r = 100 then Some {2, 3} else None)\<rparr>"

section \<open>Theorems\<close>

subsection \<open>float64 rounding\<close>

text \<open>
  \<open>float64_exponent x\<close> is the binary exponent of \<open>x\<close>: \<open>2 ^ e \<le> |x| < 2 ^ (e + 1)\<close>. The
  rounded value is a multiple of the unit in the last place, at most half a unit away
  from the exact one.
\<close>

lemma bitlength_bounds: "0 < n \<Longrightarrow> 2 ^ (bitlength n - 1) \<le> n \<and> n < 2 ^ bitlength n"
proof (induction n rule: bitlength.induct)
  case (1 n)
  show ?case
  proof (cases "n div 2 = 0")
    case True
    with 1(2) have "n = 1" by (simp add: div_eq_0_iff)
    then show ?thesis by (simp add: bitlength.simps)
  next
    case False
    then have pos: "0 < n div 2" by simp
    from 1(1)[OF _ pos] 1(2) have ih: "2 ^ (bitlength (n div 2) - 1) \<le> n div 2"
      "n div 2 < 2 ^ bitlength (n div 2)"
      by auto
    have bl: "bitlength n = Suc (bitlength (n div 2))"
      using 1(2) by (subst bitlength.simps) simp
    have bpos: "0 < bitlength (n div 2)" using pos by (subst bitlength.simps) simp
    then obtain k where k: "bitlength (n div 2) = Suc k"
      by (cases "bitlength (n div 2)") auto
    have "2 * 2 ^ k \<le> n" using ih(1) k by simp
    moreover have "n < 2 * 2 ^ Suc k" using ih(2) k by simp
    ultimately show ?thesis by (simp add: bl k)
  qed
qed

lemma pow2_pos: "0 < pow2 e"
  by (simp add: pow2_def)

lemma float64_exponent_bounds:
  assumes "x \<noteq> 0"
  shows "pow2 (float64_exponent x) \<le> \<bar>x\<bar> \<and> \<bar>x\<bar> < pow2 (float64_exponent x + 1)"
proof (cases "1 \<le> \<bar>x\<bar>")
  case True
  define n where "n = nat \<lfloor>\<bar>x\<bar>\<rfloor>"
  have npos: "0 < n" using True by (simp add: n_def)
  have nle: "real n \<le> \<bar>x\<bar>" and xlt: "\<bar>x\<bar> < real n + 1"
    using True by (simp_all add: n_def)
  from bitlength_bounds[OF npos] have b1: "2 ^ (bitlength n - 1) \<le> n"
    and b2: "n < 2 ^ bitlength n" by auto
  have bpos: "0 < bitlength n" using npos by (subst bitlength.simps) simp
  have e: "float64_exponent x = int (bitlength n) - 1"
    using True by (simp add: float64_exponent_def n_def)
  have p1: "pow2 (int (bitlength n) - 1) = 2 ^ (bitlength n - 1)"
    using bpos by (simp add: pow2_def nat_diff_distrib')
  have p2: "pow2 (int (bitlength n) - 1 + 1) = 2 ^ bitlength n"
    by (simp add: pow2_def)
  have r1: "(2::real) ^ (bitlength n - 1) \<le> real n"
  proof -
    have "real (2 ^ (bitlength n - 1)) \<le> real n" using b1 of_nat_le_iff by blast
    then show ?thesis by simp
  qed
  have r2: "real n + 1 \<le> 2 ^ bitlength n"
  proof -
    from b2 have "Suc n \<le> 2 ^ bitlength n" by (rule Suc_leI)
    then have "real (Suc n) \<le> real (2 ^ bitlength n)" using of_nat_le_iff by blast
    then show ?thesis by simp
  qed
  show ?thesis unfolding e p1 p2 using nle xlt r1 r2 by linarith
next
  case False
  define m where "m = \<lceil>1 / \<bar>x\<bar>\<rceil>"
  define k where "k = bitlength (nat (m - 1))"
  have xpos: "0 < \<bar>x\<bar>" using assms by simp
  have ygt: "1 < 1 / \<bar>x\<bar>" using False xpos by simp
  have m2: "2 \<le> m" using ygt unfolding m_def by linarith
  have yle: "1 / \<bar>x\<bar> \<le> real_of_int m" and ygt': "real_of_int m - 1 < 1 / \<bar>x\<bar>"
    unfolding m_def by linarith+
  have npos: "0 < nat (m - 1)" using m2 by simp
  from bitlength_bounds[OF npos] have b1: "2 ^ (k - 1) \<le> nat (m - 1)"
    and b2: "nat (m - 1) < 2 ^ k"
    by (auto simp: k_def)
  have kpos: "0 < k" unfolding k_def using npos by (subst bitlength.simps) simp
  have e: "float64_exponent x = - int k"
    using False by (simp add: float64_exponent_def m_def k_def)
  have r1: "(2::real) ^ (k - 1) \<le> real_of_int m - 1"
  proof -
    have "real (2 ^ (k - 1)) \<le> real (nat (m - 1))" using b1 of_nat_le_iff by blast
    then show ?thesis using m2 by simp
  qed
  have r2: "real_of_int m \<le> 2 ^ k"
  proof -
    from b2 have "Suc (nat (m - 1)) \<le> 2 ^ k" by (rule Suc_leI)
    then have "real (Suc (nat (m - 1))) \<le> real (2 ^ k)" using of_nat_le_iff by blast
    then show ?thesis using m2 by simp
  qed
  have lo: "1 / 2 ^ k \<le> \<bar>x\<bar>"
  proof -
    have "1 / \<bar>x\<bar> \<le> 2 ^ k" using yle r2 by linarith
    then show ?thesis using xpos by (simp add: field_simps)
  qed
  have hi: "\<bar>x\<bar> < 1 / 2 ^ (k - 1)"
  proof -
    have "2 ^ (k - 1) < 1 / \<bar>x\<bar>" using ygt' r1 by linarith
    then show ?thesis using xpos by (simp add: field_simps)
  qed
  have p1: "pow2 (- int k) = 1 / 2 ^ k" using kpos by (simp add: pow2_def)
  have p2: "pow2 (- int k + 1) = 1 / 2 ^ (k - 1)"
  proof (cases "k = 1")
    case True
    then show ?thesis by (simp add: pow2_def)
  next
    case False
    with kpos have "1 < k" by simp
    then have "nat (int k - 1) = k - 1" by simp
    with \<open>1 < k\<close> show ?thesis by (simp add: pow2_def)
  qed
  show ?thesis unfolding e p1 p2 using lo hi by linarith
qed

lemma round_even_error: "\<bar>real_of_int (round_even y) - y\<bar> \<le> 1 / 2"
  unfolding round_even_def Let_def by (auto; linarith)

lemma float64_round_error:
  "\<bar>float64_round x - x\<bar> \<le> pow2 (max (float64_exponent x) (- 1022) - 52) / 2"
proof (cases "x = 0")
  case True
  then show ?thesis using pow2_pos[of "max (float64_exponent x) (- 1022) - 52"]
    by (simp add: float64_round_def)
next
  case False
  define u where "u = pow2 (max (float64_exponent x) (- 1022) - 52)"
  have upos: "0 < u" unfolding u_def by (rule pow2_pos)
  have r: "float64_round x = real_of_int (round_even (x / u)) * u"
    using False by (simp add: float64_round_def Let_def u_def)
  have "\<bar>real_of_int (round_even (x / u)) * u - x\<bar> =
      \<bar>real_of_int (round_even (x / u)) - x / u\<bar> * u"
  proof -
    have "real_of_int (round_even (x / u)) * u - x =
        (real_of_int (round_even (x / u)) - x / u) * u"
      using upos by (simp add: field_simps)
    then show ?thesis using upos by (simp add: abs_mult)
  qed
  also have "\<dots> \<le> (1 / 2) * u"
    using round_even_error[of "x / u"] upos by (simp add: mult_right_mono)
  finally show ?thesis by (simp add: r u_def)
qed

text \<open>The unfolding that evaluates a float64 operation on numerals.\<close>

lemmas float64_eval = float64_round_def float64_exponent_def pow2_def round_even_def
  bitlength.simps Let_def float64_add_def float64_mul_def float64_div_def float64_of_int_def
  float64_of_int64_def

subsection \<open>Down and offline peers\<close>

lemma isDownPeer_loop_iff:
  "isDownPeer_loop c ds peer =
     (peer_Id peer \<in> set (map (\<lambda>stats. Peer_GetId (stats_Peer stats)) ds) \<and>
      (case GetStore c (peer_StoreId peer) of
         None \<Rightarrow> False
       | Some store \<Rightarrow> GetMaxStoreDownTime c \<le>s store_DownTime store))"
proof (induction ds)
  case Nil
  show ?case by simp
next
  case (Cons stats rest)
  show ?case
  proof (cases "GetStore c (peer_StoreId peer)")
    case None
    with Cons show ?thesis by auto
  next
    case (Some store)
    with Cons show ?thesis by (auto simp: word_sless_alt word_sle_eq)
  qed
qed

text \<open>
  C7. For every region and peer seen by the rule checker, \<open>isDownPeer\<close> is true exactly
  when the peer's id occurs in the region's down-peer list and the peer's store is known
  to the cluster with a down time of at least \<open>maxStoreDownTime\<close>; \<open>isOfflinePeer\<close> is
  true exactly when the peer's store is known to the cluster and is not in the \<open>Up\<close>
  state. (A store the cluster has lost makes both functions answer false.)
\<close>

theorem isDownPeer_isOfflinePeer_spec:
  "isDownPeer c region peer =
     (peer_Id peer \<in> set (downPeerIds region) \<and>
      (case GetStore c (peer_StoreId peer) of
         None \<Rightarrow> False
       | Some store \<Rightarrow> GetMaxStoreDownTime c \<le>s store_DownTime store))
   \<and> isOfflinePeer c region peer =
     (case GetStore c (peer_StoreId peer) of
        None \<Rightarrow> False
      | Some store \<Rightarrow> store_State store \<noteq> Up)"
  by (simp add: isDownPeer_def isOfflinePeer_def downPeerIds_def IsUp_def isDownPeer_loop_iff
      split: option.split)

theorem isDownPeer_isOfflinePeer_witness:
  "isDownPeer clusterX regionX peerB \<and> \<not> isDownPeer clusterX regionX peerC \<and>
   \<not> isDownPeer clusterX regionX peerA \<and>
   isOfflinePeer clusterX regionX peerC \<and> \<not> isOfflinePeer clusterX regionX peerA \<and>
   \<not> isOfflinePeer clusterX regionX peerD"
  using isDownPeer_isOfflinePeer_spec [of clusterX regionX peerA]
    isDownPeer_isOfflinePeer_spec [of clusterX regionX peerB]
    isDownPeer_isOfflinePeer_spec [of clusterX regionX peerC]
    isDownPeer_isOfflinePeer_spec [of clusterX regionX peerD]
  by (simp add: clusterX_def regionX_def peerA_def peerB_def peerC_def peerD_def
      downPeerIds_def Peer_GetId_def word_sle_eq)

subsection \<open>Orphan peers\<close>

lemma hasUnhealthyFit_iff:
  "hasUnhealthyFit env region rfs =
     (\<exists>rf \<in> set rfs. \<not> IsSatisfied env rf \<or>
        (\<exists>p \<in> set (fit_Peers rf). isUnhealthyPeer region (peer_Id p)))"
  by (induction rfs) (auto simp: list_ex_iff)

lemma hasUnhealthyFit_allFitsHealthy:
  "hasUnhealthyFit env region (RuleFits fit) = (\<not> allFitsHealthy env region fit)"
  by (auto simp: hasUnhealthyFit_iff allFitsHealthy_def)

lemma find_Some_member: "find P xs = Some x \<Longrightarrow> x \<in> set xs \<and> P x"
  by (induction xs) (auto split: if_splits)

lemma find_first:
  "x \<in> set xs \<Longrightarrow> P x \<Longrightarrow>
     \<exists>y pre post. find P xs = Some y \<and> xs = pre @ y # post \<and> P y \<and> (\<forall>z \<in> set pre. \<not> P z)"
proof (induction xs)
  case Nil
  then show ?case by simp
next
  case (Cons a xs)
  show ?case
  proof (cases "P a")
    case True
    then have "find P (a # xs) = Some a \<and> a # xs = [] @ a # xs \<and> P a \<and> (\<forall>z \<in> set []. \<not> P z)"
      by simp
    then show ?thesis by blast
  next
    case False
    with Cons.prems have "x \<in> set xs" by auto
    from Cons.IH[OF this Cons.prems(2)] obtain y pre post where
      h: "find P xs = Some y" "xs = pre @ y # post" "P y" "\<forall>z \<in> set pre. \<not> P z" by blast
    from h False have "find P (a # xs) = Some y \<and> a # xs = (a # pre) @ y # post \<and> P y \<and>
        (\<forall>z \<in> set (a # pre). \<not> P z)" by simp
    then show ?thesis by blast
  qed
qed

lemma find_None_all: "(\<forall>x \<in> set xs. \<not> P x) \<Longrightarrow> find P xs = None"
  by (induction xs) auto

lemma fixOrphanPeers_unhealthy:
  "OrphanPeers fit \<noteq> [] \<Longrightarrow> \<not> allFitsHealthy env region fit \<Longrightarrow>
     fixOrphanPeers env region fit =
       (if 2 \<le> length (OrphanPeers fit)
        then (case find (\<lambda>orphanPeer. isUnhealthyPeer region (peer_Id orphanPeer))
                     (OrphanPeers fit) of
                Some orphanPeer \<Rightarrow>
                  CreateRemovePeerOperator env ''remove-orphan-peer'' region
                    (peer_StoreId orphanPeer)
              | None \<Rightarrow> Inr None)
        else Inr None)"
  by (cases "OrphanPeers fit") (simp_all add: fixOrphanPeers_def hasUnhealthyFit_allFitsHealthy)

lemmas checker_eval = allFitsHealthy_def envH_def envX_def envT_def fitHealthy_def
  fitTwoOrphans_def fixOrphanPeers_def ruleFitX_def regionY_def regionZ_def regionW_def
  isUnhealthyPeer_def peerA_def peerB_def peerC_def peerD_def peerE_def Check_def

text \<open>
  C5 (as amended). For every region whose RegionFit has at least one orphan peer:
  if every RuleFit is satisfied and no peer selected by a RuleFit is pending or down,
  \<open>fixOrphanPeers\<close> returns what \<open>CreateRemovePeerOperator\<close> builds for the store of the
  first orphan peer. Otherwise (some fit is unsatisfied or selects a pending or down
  peer): with exactly one orphan peer it returns no operator; with at least two orphan
  peers of which one is pending or down it returns what \<open>CreateRemovePeerOperator\<close>
  builds for the store of the first pending or down orphan peer; with no pending or
  down orphan peer it returns no operator; and any operator it returns is the one built
  for a pending or down orphan peer of a region with at least two orphan peers. In
  both cases \<open>Check\<close> emits the operator \<open>fixOrphanPeers\<close> returns when the fit has at
  least one RuleFit.
\<close>

theorem fixOrphanPeers_spec:
  "OrphanPeers fit \<noteq> [] \<longrightarrow>
     (allFitsHealthy env region fit \<longrightarrow>
        fixOrphanPeers env region fit =
          CreateRemovePeerOperator env ''remove-orphan-peer'' region
            (peer_StoreId (hd (OrphanPeers fit))) \<and>
        (FitRegion env region = fit \<and> RuleFits fit \<noteq> [] \<and>
         fixOrphanPeers env region fit = Inr (Some op) \<longrightarrow> Check env region = Some op)) \<and>
     (\<not> allFitsHealthy env region fit \<longrightarrow>
        (length (OrphanPeers fit) = 1 \<longrightarrow> fixOrphanPeers env region fit = Inr None) \<and>
        (2 \<le> length (OrphanPeers fit) \<and>
         (\<exists>orphan \<in> set (OrphanPeers fit). isUnhealthyPeer region (peer_Id orphan)) \<longrightarrow>
           (\<exists>orphan pre post. OrphanPeers fit = pre @ orphan # post \<and>
              isUnhealthyPeer region (peer_Id orphan) \<and>
              (\<forall>p \<in> set pre. \<not> isUnhealthyPeer region (peer_Id p)) \<and>
              fixOrphanPeers env region fit =
                CreateRemovePeerOperator env ''remove-orphan-peer'' region
                  (peer_StoreId orphan))) \<and>
        ((\<forall>orphan \<in> set (OrphanPeers fit). \<not> isUnhealthyPeer region (peer_Id orphan)) \<longrightarrow>
           fixOrphanPeers env region fit = Inr None) \<and>
        (FitRegion env region = fit \<and> RuleFits fit \<noteq> [] \<and>
         fixOrphanPeers env region fit = Inr (Some op) \<longrightarrow> Check env region = Some op) \<and>
        (fixOrphanPeers env region fit = Inr (Some op) \<longrightarrow>
           2 \<le> length (OrphanPeers fit) \<and>
           (\<exists>orphan \<in> set (OrphanPeers fit).
              isUnhealthyPeer region (peer_Id orphan) \<and>
              CreateRemovePeerOperator env ''remove-orphan-peer'' region (peer_StoreId orphan)
                = Inr (Some op))))"
proof (cases "OrphanPeers fit")
  case Nil
  then show ?thesis by simp
next
  case (Cons orphan0 rest)
  have chk: "FitRegion env region = fit \<Longrightarrow> RuleFits fit \<noteq> [] \<Longrightarrow>
         fixOrphanPeers env region fit = Inr (Some op) \<Longrightarrow> Check env region = Some op"
    by (simp add: Check_def)
  show ?thesis
  proof (cases "allFitsHealthy env region fit")
    case True
    then have "fixOrphanPeers env region fit =
          CreateRemovePeerOperator env ''remove-orphan-peer'' region (peer_StoreId orphan0)"
      by (simp add: fixOrphanPeers_def Cons hasUnhealthyFit_allFitsHealthy)
    then show ?thesis using True Cons chk by simp
  next
    case False
    let ?P = "\<lambda>orphanPeer. isUnhealthyPeer region (peer_Id orphanPeer)"
    have one: "length (OrphanPeers fit) = 1 \<Longrightarrow> fixOrphanPeers env region fit = Inr None"
      using False by (simp add: fixOrphanPeers_def Cons hasUnhealthyFit_allFitsHealthy)
    have pos: "\<exists>orphan pre post. OrphanPeers fit = pre @ orphan # post \<and>
              isUnhealthyPeer region (peer_Id orphan) \<and>
              (\<forall>p \<in> set pre. \<not> isUnhealthyPeer region (peer_Id p)) \<and>
              fixOrphanPeers env region fit =
                CreateRemovePeerOperator env ''remove-orphan-peer'' region
                  (peer_StoreId orphan)"
      if len: "2 \<le> length (OrphanPeers fit)"
        and ex: "\<exists>orphan \<in> set (OrphanPeers fit). isUnhealthyPeer region (peer_Id orphan)"
    proof -
      from ex obtain x where x: "x \<in> set (OrphanPeers fit)" "?P x" by blast
      from find_first[of x "OrphanPeers fit" ?P, OF x] obtain y pre post where
        h: "find ?P (OrphanPeers fit) = Some y" "OrphanPeers fit = pre @ y # post" "?P y"
          "\<forall>z \<in> set pre. \<not> ?P z" by blast
      have "fixOrphanPeers env region fit =
          CreateRemovePeerOperator env ''remove-orphan-peer'' region (peer_StoreId y)"
        using fixOrphanPeers_unhealthy[of fit env region] False Cons len h(1) by simp
      with h show ?thesis by blast
    qed
    have none: "fixOrphanPeers env region fit = Inr None"
      if "\<forall>orphan \<in> set (OrphanPeers fit). \<not> isUnhealthyPeer region (peer_Id orphan)"
      using fixOrphanPeers_unhealthy[of fit env region] False Cons
        find_None_all[of "OrphanPeers fit" ?P, OF that] by simp
    have two: "2 \<le> length (OrphanPeers fit) \<and>
           (\<exists>orphan \<in> set (OrphanPeers fit).
              isUnhealthyPeer region (peer_Id orphan) \<and>
              CreateRemovePeerOperator env ''remove-orphan-peer'' region (peer_StoreId orphan)
                = Inr (Some op))"
      if h: "fixOrphanPeers env region fit = Inr (Some op)"
    proof -
      from h False have len: "2 \<le> length (OrphanPeers fit)"
        by (simp add: fixOrphanPeers_def Cons hasUnhealthyFit_allFitsHealthy split: if_splits)
      with h False obtain orphan where
        f: "find (\<lambda>orphanPeer. isUnhealthyPeer region (peer_Id orphanPeer)) (OrphanPeers fit)
              = Some orphan"
        and c: "CreateRemovePeerOperator env ''remove-orphan-peer'' region (peer_StoreId orphan)
              = Inr (Some op)"
        by (auto simp: fixOrphanPeers_def Cons hasUnhealthyFit_allFitsHealthy
            split: if_splits option.splits)
      from find_Some_member[OF f] c len show ?thesis by blast
    qed
    show ?thesis using False one pos none chk two by blast
  qed
qed

theorem fixOrphanPeers_witness:
  "OrphanPeers fitHealthy \<noteq> [] \<and> allFitsHealthy envH regionZ fitHealthy \<and>
   FitRegion envH regionZ = fitHealthy \<and> RuleFits fitHealthy \<noteq> [] \<and>
   fixOrphanPeers envH regionZ fitHealthy = Inr (Some ''remove peer on store 4'') \<and>
   Check envH regionZ = Some ''remove peer on store 4'' \<and>
   OrphanPeers fitTwoOrphans = [peerD, peerE] \<and> \<not> allFitsHealthy envT regionY fitTwoOrphans \<and>
   \<not> isUnhealthyPeer regionY (peer_Id peerD) \<and> isUnhealthyPeer regionY (peer_Id peerE) \<and>
   peer_StoreId peerE = 5 \<and>
   fixOrphanPeers envT regionY fitTwoOrphans = Inr (Some ''remove peer on store 5'') \<and>
   FitRegion envT regionY = fitTwoOrphans \<and>
   Check envT regionY = Some ''remove peer on store 5'' \<and>
   \<not> allFitsHealthy envT regionW fitTwoOrphans \<and>
   \<not> isUnhealthyPeer regionW (peer_Id peerD) \<and> \<not> isUnhealthyPeer regionW (peer_Id peerE) \<and>
   fixOrphanPeers envT regionW fitTwoOrphans = Inr None \<and>
   length (OrphanPeers fitHealthy) = 1 \<and> \<not> allFitsHealthy envX regionY fitHealthy \<and>
   fixOrphanPeers envX regionY fitHealthy = Inr None"
  using fixOrphanPeers_spec [of fitHealthy envH regionZ "''remove peer on store 4''"]
    fixOrphanPeers_spec [of fitTwoOrphans envT regionY "''remove peer on store 5''"]
    fixOrphanPeers_spec [of fitTwoOrphans envT regionW "''remove peer on store 5''"]
    fixOrphanPeers_spec [of fitHealthy envX regionY "''remove peer on store 5''"]
  by (simp add: checker_eval)

text \<open>
  The claim as first stated fails for a region that matches no rule: its fit has no
  RuleFit, so every RuleFit is (vacuously) satisfied and healthy, all its peers are
  orphans, and \<open>Check\<close> goes to \<open>fixRange\<close> without looking at the orphan peers. With no
  split key it emits nothing.
\<close>

theorem Check_no_rulefit_counterexample:
  "OrphanPeers (FitRegion envX regionZ) \<noteq> [] \<and>
   allFitsHealthy envX regionZ (FitRegion envX regionZ) \<and>
   Check envX regionZ = None"
  by (simp add: Check_def fixRange_def allFitsHealthy_def envX_def regionZ_def)

subsection \<open>The influence of RemovePeer\<close>

text \<open>
  C2 (as amended). For every region and every RemovePeer step, \<open>Influence\<close> charges the
  RemovePeer store-limit bucket of the source store (through \<open>AdjustStepCost\<close>) with the
  cost \<open>SmallRegionThreshold\<close> when the step's \<open>IsDownStore\<close> flag is true and with the
  region's approximate size otherwise; in both cases it first decrements the source
  store's region size by the region's approximate size and its region count by one
  (an \<open>AdjustStepCost\<close> that changes only the step cost leaves both at these values),
  and it leaves the influence of every other store alone.
\<close>

theorem RemovePeer_Influence_spec:
  "RemovePeer_Influence env rp opInfluence region (rp_FromStore rp) =
     AdjustStepCost env RemovePeer_limit
       (if rp_IsDownStore rp then SmallRegionThreshold env else region_ApproximateSize region)
       ((opInfluence (rp_FromStore rp))
          \<lparr>inf_RegionSize := inf_RegionSize (opInfluence (rp_FromStore rp))
                              - region_ApproximateSize region,
           inf_RegionCount := inf_RegionCount (opInfluence (rp_FromStore rp)) - 1\<rparr>) \<and>
   (\<forall>store. store \<noteq> rp_FromStore rp \<longrightarrow>
      RemovePeer_Influence env rp opInfluence region store = opInfluence store) \<and>
   ((\<forall>t cost s. inf_RegionSize (AdjustStepCost env t cost s) = inf_RegionSize s \<and>
               inf_RegionCount (AdjustStepCost env t cost s) = inf_RegionCount s) \<longrightarrow>
      inf_RegionSize (RemovePeer_Influence env rp opInfluence region (rp_FromStore rp)) =
        inf_RegionSize (opInfluence (rp_FromStore rp)) - region_ApproximateSize region \<and>
      inf_RegionCount (RemovePeer_Influence env rp opInfluence region (rp_FromStore rp)) =
        inf_RegionCount (opInfluence (rp_FromStore rp)) - 1)"
  by (simp add: RemovePeer_Influence_def Let_def)

theorem RemovePeer_Influence_witness:
  "inf_StepCost (RemovePeer_Influence limitEnvX
      \<lparr>rp_FromStore = 3, rp_PeerID = 13, rp_IsDownStore = True\<rparr> (\<lambda>s. zeroInfluence) regionX 3)
      RemovePeer_limit = 20 \<and>
   inf_StepCost (RemovePeer_Influence limitEnvX
      \<lparr>rp_FromStore = 3, rp_PeerID = 13, rp_IsDownStore = False\<rparr> (\<lambda>s. zeroInfluence) regionX 3)
      RemovePeer_limit = 96 \<and>
   inf_RegionSize (RemovePeer_Influence limitEnvX
      \<lparr>rp_FromStore = 3, rp_PeerID = 13, rp_IsDownStore = True\<rparr> (\<lambda>s. zeroInfluence) regionX 3)
      = 0 - 96 \<and>
   inf_RegionCount (RemovePeer_Influence limitEnvX
      \<lparr>rp_FromStore = 3, rp_PeerID = 13, rp_IsDownStore = True\<rparr> (\<lambda>s. zeroInfluence) regionX 3)
      = 0 - 1 \<and>
   (2::nat) \<noteq> 3 \<and>
   RemovePeer_Influence limitEnvX
      \<lparr>rp_FromStore = 3, rp_PeerID = 13, rp_IsDownStore = True\<rparr> (\<lambda>s. zeroInfluence) regionX 2
      = zeroInfluence"
  using RemovePeer_Influence_spec [of limitEnvX
      "\<lparr>rp_FromStore = 3, rp_PeerID = 13, rp_IsDownStore = True\<rparr>" "\<lambda>s. zeroInfluence" regionX]
    RemovePeer_Influence_spec [of limitEnvX
      "\<lparr>rp_FromStore = 3, rp_PeerID = 13, rp_IsDownStore = False\<rparr>" "\<lambda>s. zeroInfluence" regionX]
  by (simp add: limitEnvX_def zeroInfluence_def regionX_def)

text \<open>
  The claim as first stated decrements the region count by the region's approximate
  size as well. For a region of size 96 the count of the source store goes from 0 to
  -1, not to -96.
\<close>

theorem RemovePeer_Influence_count_counterexample:
  "region_ApproximateSize regionX = 96 \<and>
   inf_RegionCount (zeroInfluence) = 0 \<and>
   inf_RegionCount (RemovePeer_Influence limitEnvX
      \<lparr>rp_FromStore = 3, rp_PeerID = 13, rp_IsDownStore = False\<rparr> (\<lambda>s. zeroInfluence) regionX 3)
      = 0 - 1 \<and>
   inf_RegionCount (RemovePeer_Influence limitEnvX
      \<lparr>rp_FromStore = 3, rp_PeerID = 13, rp_IsDownStore = False\<rparr> (\<lambda>s. zeroInfluence) regionX 3)
      \<noteq> 0 - region_ApproximateSize regionX"
  by (simp add: RemovePeer_Influence_def Let_def limitEnvX_def zeroInfluence_def regionX_def)

subsection \<open>shouldBalance and the tolerant resource\<close>

lemma maxRegionCount_loop_fold:
  "maxRegionCount_loop c stores m =
     fold max (map (\<lambda>store. float64_of_int (cl_StoreRegionCount c store)) stores) m"
proof (induction stores arbitrary: m)
  case Nil
  show ?case by simp
next
  case (Cons store rest)
  have "max (float64_of_int (cl_StoreRegionCount c store)) m =
      (if m < float64_of_int (cl_StoreRegionCount c store)
       then float64_of_int (cl_StoreRegionCount c store) else m)"
    by (simp add: max_def)
  with Cons show ?case by (simp add: Let_def)
qed

lemma maxRegionCount_loop_Max:
  "maxRegionCount_loop c (cl_Stores c) 0 = maxStoreRegionCount c"
proof -
  have "Max (set (0 # map (\<lambda>store. float64_of_int (cl_StoreRegionCount c store)) (cl_Stores c))) =
      fold max (map (\<lambda>store. float64_of_int (cl_StoreRegionCount c store)) (cl_Stores c)) 0"
    by (rule Max.set_eq_fold)
  then show ?thesis
    by (simp add: maxRegionCount_loop_fold maxStoreRegionCount_def)
qed

lemma adjustTolerantRatio_spec: "adjustTolerantRatio c = tolerantSizeRatio_spec c"
proof -
  define r where "r = float64_mul (maxStoreRegionCount c) (float64_round 0.005)"
  have "(if r < 1 then 1 else r) = max r 1"
    by (simp add: max_def)
  then show ?thesis
    unfolding adjustTolerantRatio_def tolerantSizeRatio_spec_def Let_def
      maxRegionCount_loop_Max adjustRatio_def minTolerantSizeRatio_def r_def [symmetric]
    by simp
qed

lemma adjustTolerantRatio_nonzero: "adjustTolerantRatio c \<noteq> 0"
proof (cases "cl_TolerantSizeRatio c = 0")
  case True
  define r where "r = float64_mul (maxRegionCount_loop c (cl_Stores c) 0) adjustRatio"
  have "(if r < 1 then 1 else r) \<noteq> 0" by simp
  with True show ?thesis
    unfolding adjustTolerantRatio_def Let_def minTolerantSizeRatio_def r_def [symmetric]
    by simp
next
  case False
  then show ?thesis by (simp add: adjustTolerantRatio_def Let_def)
qed

lemma kind_fields:
  "kind_Resource regionBySize = RegionKind" "kind_Policy regionBySize = BySize"
  "kind_Resource leaderByCount = LeaderKind" "kind_Policy leaderByCount = ByCount"
  by (simp_all add: regionBySize_def leaderByCount_def)

lemma sched_fields:
  "region_ApproximateSize regionV = 100" "cl_AverageRegionSize schedClusterV = 64"
  "region_ApproximateSize regionX = 96" "cl_AverageRegionSize schedClusterX = 64"
  "cl_AverageRegionSize schedClusterY = 64" "cl_TolerantSizeRatio schedClusterX = 3"
  by (simp_all add: regionV_def schedClusterV_def regionX_def schedClusterX_def
      schedClusterY_def)

lemma float64_values_sched:
  "float64_of_int64 100 = 100" "float64_of_int64 96 = 96"
  "float64_mul 1 3 = 3"
  "float64_mul 100 (2308094809027379 / 1125899906842624) = 7212796278210559 / 35184372088832"
  "float64_mul 96 2 = 192"
  by (simp_all add: float64_eval)

lemma int64_of_float_values:
  "int64_of_float (7212796278210559 / 35184372088832) = 204"
  "int64_of_float 192 = 192" "int64_of_float 3 = 3" "int64_of_float 5 = 5"
  by (simp_all add: int64_of_float_def Let_def)

lemma adjustTolerantRatio_schedClusterV:
  "adjustTolerantRatio schedClusterV = 2308094809027379 / 1125899906842624"
  by (simp add: adjustTolerantRatio_def schedClusterV_def adjustRatio_def
      minTolerantSizeRatio_def float64_eval)

lemma adjustTolerantRatio_schedClusterY: "adjustTolerantRatio schedClusterY = 2"
  by (simp add: adjustTolerantRatio_def schedClusterY_def schedClusterX_def adjustRatio_def
      minTolerantSizeRatio_def float64_eval)

lemma adjustTolerantRatio_schedClusterX: "adjustTolerantRatio schedClusterX = 3"
  by (simp add: adjustTolerantRatio_def schedClusterX_def)

lemma getTolerantResource_values:
  "getTolerantResource schedClusterV regionV regionBySize = 204"
  "getTolerantResource schedClusterY regionX regionBySize = 192"
  "getTolerantResource schedClusterX regionX leaderByCount = 3"
  by (simp_all add: getTolerantResource_def adjustTolerantRatio_schedClusterV
      adjustTolerantRatio_schedClusterY adjustTolerantRatio_schedClusterX kind_fields
      sched_fields float64_values_sched int64_of_float_values word_sless_alt)

text \<open>
  C3 (as amended). For every source store, target store and region, \<open>shouldBalance\<close>
  computes sourceDelta as the source influence minus the tolerant resource and
  targetDelta as the target influence plus the tolerant resource, and returns true
  exactly when the source score at sourceDelta is strictly greater than the target
  score at targetDelta. For leader-by-count scheduling with a configured (non-zero)
  tolerantSizeRatio the tolerant resource is 1.0 times that ratio converted to \<open>int64\<close>;
  for every other kind it is the \<open>float64\<close> product of max(region approximate size,
  cluster average region size) and tolerantSizeRatio, converted to \<open>int64\<close> (fraction
  dropped), where tolerantSizeRatio is the configured value or, when that is zero, the
  \<open>float64\<close> product of the maximum per-store region count and 0.005, floored at 1.
  The products are rounded as \<open>float64\<close> products are: with region counts 410, 100 and
  50 and a region of size 100 the tolerant resource is 204.
\<close>

theorem shouldBalance_spec:
  "fst (shouldBalance env c source target region kind opInfluence) =
     (let tolerant = getTolerantResource c region kind;
          sourceDelta = ResourceProperty env (opInfluence (store_ID source)) kind - tolerant;
          targetDelta = ResourceProperty env (opInfluence (store_ID target)) kind + tolerant
      in case kind_Resource kind of
           LeaderKind \<Rightarrow>
             LeaderScore env target (kind_Policy kind) targetDelta
               < LeaderScore env source (kind_Policy kind) sourceDelta
         | RegionKind \<Rightarrow>
             RegionScore env target (cl_RegionScoreFormulaVersion c) (cl_HighSpaceRatio c)
                 (cl_LowSpaceRatio c) targetDelta 1
               < RegionScore env source (cl_RegionScoreFormulaVersion c) (cl_HighSpaceRatio c)
                 (cl_LowSpaceRatio c) sourceDelta (- 1)) \<and>
   (kind_Resource kind = LeaderKind \<and> kind_Policy kind = ByCount \<and> cl_TolerantSizeRatio c \<noteq> 0
      \<longrightarrow> getTolerantResource c region kind =
            int64_of_float (float64_mul 1 (cl_TolerantSizeRatio c))) \<and>
   (\<not> (kind_Resource kind = LeaderKind \<and> kind_Policy kind = ByCount)
      \<longrightarrow> getTolerantResource c region kind =
            int64_of_float
              (float64_mul (float64_of_int64 (maxSize c region)) (tolerantSizeRatio_spec c)))"
proof -
  have a: "kind_Resource kind = LeaderKind \<and> kind_Policy kind = ByCount \<and> cl_TolerantSizeRatio c \<noteq> 0
      \<longrightarrow> getTolerantResource c region kind =
            int64_of_float (float64_mul 1 (cl_TolerantSizeRatio c))"
    by (simp add: getTolerantResource_def Let_def adjustTolerantRatio_def)
  have b: "\<not> (kind_Resource kind = LeaderKind \<and> kind_Policy kind = ByCount)
      \<longrightarrow> getTolerantResource c region kind =
            int64_of_float
              (float64_mul (float64_of_int64 (maxSize c region)) (tolerantSizeRatio_spec c))"
    by (auto simp: getTolerantResource_def Let_def adjustTolerantRatio_spec maxSize_def word_sless_alt)
  have c: "fst (shouldBalance env c source target region kind opInfluence) =
     (let tolerant = getTolerantResource c region kind;
          sourceDelta = ResourceProperty env (opInfluence (store_ID source)) kind - tolerant;
          targetDelta = ResourceProperty env (opInfluence (store_ID target)) kind + tolerant
      in case kind_Resource kind of
           LeaderKind \<Rightarrow>
             LeaderScore env target (kind_Policy kind) targetDelta
               < LeaderScore env source (kind_Policy kind) sourceDelta
         | RegionKind \<Rightarrow>
             RegionScore env target (cl_RegionScoreFormulaVersion c) (cl_HighSpaceRatio c)
                 (cl_LowSpaceRatio c) targetDelta 1
               < RegionScore env source (cl_RegionScoreFormulaVersion c) (cl_HighSpaceRatio c)
                 (cl_LowSpaceRatio c) sourceDelta (- 1))"
    by (cases "kind_Resource kind") (simp_all add: shouldBalance_def Let_def)
  from a b c show ?thesis by blast
qed

theorem shouldBalance_witness:
  "kind_Resource leaderByCount = LeaderKind \<and> kind_Policy leaderByCount = ByCount \<and>
   cl_TolerantSizeRatio schedClusterX \<noteq> 0 \<and>
   getTolerantResource schedClusterX regionX leaderByCount = 3 \<and>
   \<not> (kind_Resource regionBySize = LeaderKind \<and> kind_Policy regionBySize = ByCount) \<and>
   getTolerantResource schedClusterY regionX regionBySize = 192 \<and>
   getTolerantResource schedClusterV regionV regionBySize = 204 \<and>
   fst (shouldBalance scoreEnvX schedClusterX storeOne storeTwo regionX leaderByCount
         (\<lambda>s. zeroInfluence)) \<and>
   \<not> fst (shouldBalance scoreEnvX schedClusterX storeTwo storeOne regionX leaderByCount
         (\<lambda>s. zeroInfluence))"
  using shouldBalance_spec [of scoreEnvX schedClusterX storeOne storeTwo regionX leaderByCount
      "\<lambda>s. zeroInfluence"]
    shouldBalance_spec [of scoreEnvX schedClusterY storeOne storeTwo regionX regionBySize
      "\<lambda>s. zeroInfluence"]
    shouldBalance_spec [of scoreEnvX schedClusterV storeOne storeTwo regionV regionBySize
      "\<lambda>s. zeroInfluence"]
  by (simp add: shouldBalance_def getTolerantResource_values kind_fields sched_fields
      scoreEnvX_def storeOne_def storeTwo_def zeroInfluence_def)

text \<open>
  The claim as first stated gives leader-by-count scheduling the constant 5. With a
  configured ratio of 3 the tolerant resource is 3.
\<close>

theorem getTolerantResource_leader_counterexample:
  "kind_Resource leaderByCount = LeaderKind \<and> kind_Policy leaderByCount = ByCount \<and>
   getTolerantResource schedClusterX regionX leaderByCount = 3 \<and>
   getTolerantResource schedClusterX regionX leaderByCount \<noteq> int64_of_float leaderTolerantSizeRatio"
  by (simp add: getTolerantResource_values kind_fields int64_of_float_values
      leaderTolerantSizeRatio_def)

subsection \<open>Suspect key ranges\<close>

lemma AddSuspectRegions_regions:
  "suspectRegions (AddSuspectRegions ids cl) = suspectRegions cl \<union> set ids"
  by (induction ids arbitrary: cl) auto

lemma AddSuspectRegions_ranges:
  "suspectKeyRanges (AddSuspectRegions ids cl) = suspectKeyRanges cl"
  by (induction ids arbitrary: cl) auto

lemma PopOneSuspectKeyRange_Some:
  "PopOneSuspectKeyRange env cl = (Some (k, keyRange), cl1) \<Longrightarrow>
     suspectKeyRanges cl k = Some keyRange \<and>
     cl1 = cl\<lparr>suspectKeyRanges := (suspectKeyRanges cl)(k := None)\<rparr>"
  by (auto simp: PopOneSuspectKeyRange_def split: option.splits)

text \<open>
  C8. Whenever \<open>checkSuspectKeyRanges\<close> pops a suspect key range [start, end) and the
  region scan over that range (limit 1024) returns a non-empty list, the ids of all
  scanned regions are added to the suspect regions, and if the end key of the last
  scanned region is non-empty and strictly less than end, the remainder
  [lastEndKey, end) is stored as a suspect key range under
  \<open>BuildKeyRangeKey(lastEndKey, end)\<close>; when the end key is not less than end, no key range
  is added. "Less" is the order of \<open>bytes.Compare\<close> on the two byte strings. If the scan
  returns no region, nothing is added: the cluster is as the pop left it.
\<close>

theorem checkSuspectKeyRanges_spec:
  "PopOneSuspectKeyRange env cl = (Some (k, startKey, endKey), cl1) \<longrightarrow>
     (ScanRegions env startKey endKey 1024 \<noteq> [] \<longrightarrow>
        suspectRegions (checkSuspectKeyRanges env cl) =
          suspectRegions cl \<union> set (map region_ID (ScanRegions env startKey endKey 1024)) \<and>
        (let lastEndKey = region_EndKey (last (ScanRegions env startKey endKey 1024))
         in (bytes_of lastEndKey \<noteq> [] \<and> bytes_Compare (bytes_of lastEndKey) (bytes_of endKey) < 0
               \<longrightarrow> suspectKeyRanges (checkSuspectKeyRanges env cl) =
                     ((suspectKeyRanges cl)(k := None))
                       (BuildKeyRangeKey env lastEndKey endKey := Some (lastEndKey, endKey))) \<and>
            (\<not> bytes_Compare (bytes_of lastEndKey) (bytes_of endKey) < 0
               \<longrightarrow> suspectKeyRanges (checkSuspectKeyRanges env cl) =
                     (suspectKeyRanges cl)(k := None)))) \<and>
     (ScanRegions env startKey endKey 1024 = [] \<longrightarrow>
        checkSuspectKeyRanges env cl = cl1 \<and>
        suspectRegions cl1 = suspectRegions cl \<and>
        suspectKeyRanges cl1 = (suspectKeyRanges cl)(k := None))"
proof (cases "PopOneSuspectKeyRange env cl = (Some (k, startKey, endKey), cl1)")
  case False
  then show ?thesis by simp
next
  case True
  note pop = PopOneSuspectKeyRange_Some[OF True]
  have nonempty: "bytes_of b \<noteq> [] \<Longrightarrow> b \<noteq> None" for b
    by (cases b) (auto simp: bytes_of_def)
  show ?thesis
    using True pop nonempty[of "region_EndKey (last (ScanRegions env startKey endKey 1024))"]
    by (auto simp: checkSuspectKeyRanges_def Let_def AddSuspectRegions_regions
        AddSuspectRegions_ranges AddSuspectKeyRange_def)
qed

theorem checkSuspectKeyRanges_witness:
  "PopOneSuspectKeyRange suspectEnvX suspectClusterX =
     (Some (''61-7a'', Some [97], Some [122]),
      suspectClusterX\<lparr>suspectKeyRanges := (suspectKeyRanges suspectClusterX)(''61-7a'' := None)\<rparr>) \<and>
   ScanRegions suspectEnvX (Some [97]) (Some [122]) 1024 \<noteq> [] \<and>
   suspectRegions (checkSuspectKeyRanges suspectEnvX suspectClusterX) = {7, 100, 101} \<and>
   bytes_Compare [116] [122] < 0 \<and>
   suspectKeyRanges (checkSuspectKeyRanges suspectEnvX suspectClusterX) ''74-7a''
     = Some (Some [116], Some [122]) \<and>
   suspectKeyRanges (checkSuspectKeyRanges suspectEnvX suspectClusterX) ''61-7a'' = None \<and>
   PopOneSuspectKeyRange suspectEnvX suspectClusterY =
     (Some (''74-7a'', Some [116], Some [122]),
      suspectClusterY\<lparr>suspectKeyRanges := (suspectKeyRanges suspectClusterY)(''74-7a'' := None)\<rparr>) \<and>
   ScanRegions suspectEnvX (Some [116]) (Some [122]) 1024 = [] \<and>
   checkSuspectKeyRanges suspectEnvX suspectClusterY =
     suspectClusterY\<lparr>suspectKeyRanges := (suspectKeyRanges suspectClusterY)(''74-7a'' := None)\<rparr> \<and>
   PopOneSuspectKeyRange suspectEnvX suspectClusterZ =
     (Some (''61-6d'', Some [97], Some [109]),
      suspectClusterZ\<lparr>suspectKeyRanges := (suspectKeyRanges suspectClusterZ)(''61-6d'' := None)\<rparr>) \<and>
   \<not> bytes_Compare [116] [109] < 0 \<and>
   suspectRegions (checkSuspectKeyRanges suspectEnvX suspectClusterZ) = {7, 100, 101} \<and>
   suspectKeyRanges (checkSuspectKeyRanges suspectEnvX suspectClusterZ) = (\<lambda>k. None)"
  using checkSuspectKeyRanges_spec [of suspectEnvX suspectClusterZ "''61-6d''" "Some [97]"
      "Some [109]"
      "suspectClusterZ\<lparr>suspectKeyRanges := (suspectKeyRanges suspectClusterZ)(''61-6d'' := None)\<rparr>"]
    checkSuspectKeyRanges_spec [of suspectEnvX suspectClusterX "''61-7a''" "Some [97]"
      "Some [122]"
      "suspectClusterX\<lparr>suspectKeyRanges := (suspectKeyRanges suspectClusterX)(''61-7a'' := None)\<rparr>"]
    checkSuspectKeyRanges_spec [of suspectEnvX suspectClusterY "''74-7a''" "Some [116]"
      "Some [122]"
      "suspectClusterY\<lparr>suspectKeyRanges := (suspectKeyRanges suspectClusterY)(''74-7a'' := None)\<rparr>"]
  by (auto simp add: checkSuspectKeyRanges_def PopOneSuspectKeyRange_def suspectEnvX_def
      suspectClusterX_def suspectClusterY_def suspectClusterZ_def Let_def bytes_of_def
      AddSuspectKeyRange_def)

subsection \<open>Pausing and resuming schedulers\<close>

text \<open>
  C10 (as amended). On a coordinator with its cluster set: for every name other than
  "all" that is not a registered scheduler \<open>pauseOrResumeScheduler\<close> returns
  ErrSchedulerNotFound and leaves every scheduler's deadline unchanged; for a
  registered scheduler it returns no error, and with \<open>t \<le> 0\<close> it sets the deadline to 0,
  so that \<open>IsPaused\<close> is false at every clock reading from the epoch on, while with
  \<open>t > 0\<close> it sets the deadline to the clock reading plus \<open>t\<close> in 64-bit arithmetic (\<open>t\<close>
  seconds into the future when the sum does not overflow), and at every reading before
  that deadline \<open>IsPaused\<close> is true and \<open>AllowSchedule\<close> is false. (The guard for a
  coordinator without a cluster returns ErrNotBootstrapped and changes nothing.)
\<close>

theorem pauseOrResumeScheduler_spec:
  "(co_cluster c = None \<longrightarrow>
      pauseOrResumeScheduler clock name t c = (Some ErrNotBootstrapped, c)) \<and>
   (co_cluster c \<noteq> None \<and> name \<noteq> ''all'' \<and> co_schedulers c name = None \<longrightarrow>
      pauseOrResumeScheduler clock name t c = (Some ErrSchedulerNotFound, c)) \<and>
   (co_cluster c \<noteq> None \<and> co_schedulers c name = Some sc \<longrightarrow>
      (\<exists>sc'. fst (pauseOrResumeScheduler clock name t c) = None \<and>
         co_schedulers (snd (pauseOrResumeScheduler clock name t c)) name = Some sc' \<and>
         sc_IsScheduleAllowed sc' = sc_IsScheduleAllowed sc \<and>
         (t \<le>s 0 \<longrightarrow> sc_delayUntil sc' = 0 \<and> (\<forall>now. 0 \<le>s now \<longrightarrow> \<not> IsPaused now sc')) \<and>
         (0 <s t \<longrightarrow> sc_delayUntil sc' = clock name + t \<and>
            (\<forall>now. now <s clock name + t \<longrightarrow> IsPaused now sc' \<and> \<not> AllowSchedule now sc') \<and>
            (sint (clock name) + sint t < 2 ^ 63 \<longrightarrow>
               sint (sc_delayUntil sc') = sint (clock name) + sint t))))"
proof -
  have ov: "sint (a + b) = sint a + sint b"
    if "0 <s b" "sint a + sint b < 2 ^ 63" for a b :: int64
  proof -
    have "- (2 ^ 63) \<le> sint a" using sint_ge[of a] by simp
    moreover have "0 < sint b" using that(1) by (simp add: word_sless_alt)
    ultimately have "- (2 ^ 63) \<le> sint a + sint b" by simp
    then show ?thesis using that(2)
      by (simp add: sint_word_add signed_take_bit_int_eq_self)
  qed
  show ?thesis
    by (cases "name = ''all''")
      (auto simp: pauseOrResumeScheduler_def storeDelayUntil_def Let_def IsPaused_def
        AllowSchedule_def word_sless_alt word_sle_eq ov)
qed

theorem pauseOrResumeScheduler_witness:
  "co_cluster coordX \<noteq> None \<and> ''no-such-scheduler'' \<noteq> ''all'' \<and>
   co_schedulers coordX ''no-such-scheduler'' = None \<and>
   pauseOrResumeScheduler (\<lambda>n. 1700000000) ''no-such-scheduler'' 60 coordX
     = (Some ErrSchedulerNotFound, coordX) \<and>
   co_schedulers coordX ''balance-leader-scheduler''
     = Some \<lparr>sc_delayUntil = 1700000500, sc_IsScheduleAllowed = True\<rparr> \<and>
   (0::int64) <s 60 \<and>
   fst (pauseOrResumeScheduler (\<lambda>n. 1700000000) ''balance-leader-scheduler'' 60 coordX) = None \<and>
   co_schedulers (snd (pauseOrResumeScheduler (\<lambda>n. 1700000000) ''balance-leader-scheduler'' 60
       coordX)) ''balance-leader-scheduler''
     = Some \<lparr>sc_delayUntil = 1700000060, sc_IsScheduleAllowed = True\<rparr> \<and>
   IsPaused 1700000059 \<lparr>sc_delayUntil = 1700000060, sc_IsScheduleAllowed = True\<rparr> \<and>
   \<not> AllowSchedule 1700000059 \<lparr>sc_delayUntil = 1700000060, sc_IsScheduleAllowed = True\<rparr> \<and>
   (0::int64) \<le>s 0 \<and>
   co_schedulers (snd (pauseOrResumeScheduler (\<lambda>n. 1700000000) ''balance-leader-scheduler'' 0
       coordX)) ''balance-leader-scheduler''
     = Some \<lparr>sc_delayUntil = 0, sc_IsScheduleAllowed = True\<rparr> \<and>
   \<not> IsPaused 1700000000 \<lparr>sc_delayUntil = 0, sc_IsScheduleAllowed = True\<rparr> \<and>
   co_cluster coordNil = None \<and>
   pauseOrResumeScheduler (\<lambda>n. 1700000000) ''balance-leader-scheduler'' 60 coordNil
     = (Some ErrNotBootstrapped, coordNil)"
  using pauseOrResumeScheduler_spec [of coordX "\<lambda>n. 1700000000" "''no-such-scheduler''" 60
      "\<lparr>sc_delayUntil = 1700000500, sc_IsScheduleAllowed = True\<rparr>"]
    pauseOrResumeScheduler_spec [of coordX "\<lambda>n. 1700000000" "''balance-leader-scheduler''" 60
      "\<lparr>sc_delayUntil = 1700000500, sc_IsScheduleAllowed = True\<rparr>"]
    pauseOrResumeScheduler_spec [of coordX "\<lambda>n. 1700000000" "''balance-leader-scheduler''" 0
      "\<lparr>sc_delayUntil = 1700000500, sc_IsScheduleAllowed = True\<rparr>"]
    pauseOrResumeScheduler_spec [of coordNil "\<lambda>n. 1700000000" "''balance-leader-scheduler''" 60
      "\<lparr>sc_delayUntil = 1700000500, sc_IsScheduleAllowed = True\<rparr>"]
  by (simp add: pauseOrResumeScheduler_def coordX_def coordNil_def emptyCluster_def
      storeDelayUntil_def IsPaused_def AllowSchedule_def word_sless_alt word_sle_eq)

text \<open>
  The claim as first stated fails where the sum overflows: pausing the registered
  scheduler for 9223372036854775807 seconds at clock reading 1700000000 stores the
  deadline -9223372035154775809, which lies in the past, so at that very reading
  \<open>IsPaused\<close> is false and \<open>AllowSchedule\<close> is true although \<open>t > 0\<close>. It also fails for
  a clock reading before the epoch: after a resume (\<open>t = 0\<close>, deadline 0) \<open>IsPaused\<close> is
  true at reading -5.
\<close>

theorem pauseOrResumeScheduler_counterexample:
  "co_cluster coordX \<noteq> None \<and>
   co_schedulers coordX ''balance-leader-scheduler''
     = Some \<lparr>sc_delayUntil = 1700000500, sc_IsScheduleAllowed = True\<rparr> \<and>
   (0::int64) <s 9223372036854775807 \<and>
   fst (pauseOrResumeScheduler (\<lambda>n. 1700000000) ''balance-leader-scheduler''
          9223372036854775807 coordX) = None \<and>
   co_schedulers (snd (pauseOrResumeScheduler (\<lambda>n. 1700000000) ''balance-leader-scheduler''
       9223372036854775807 coordX)) ''balance-leader-scheduler''
     = Some \<lparr>sc_delayUntil = - 9223372035154775809, sc_IsScheduleAllowed = True\<rparr> \<and>
   \<not> IsPaused 1700000000 \<lparr>sc_delayUntil = - 9223372035154775809, sc_IsScheduleAllowed = True\<rparr> \<and>
   AllowSchedule 1700000000
     \<lparr>sc_delayUntil = - 9223372035154775809, sc_IsScheduleAllowed = True\<rparr> \<and>
   (0::int64) \<le>s 0 \<and>
   co_schedulers (snd (pauseOrResumeScheduler (\<lambda>n. - 5) ''balance-leader-scheduler'' 0
       coordX)) ''balance-leader-scheduler''
     = Some \<lparr>sc_delayUntil = 0, sc_IsScheduleAllowed = True\<rparr> \<and>
   IsPaused (- 5) \<lparr>sc_delayUntil = 0, sc_IsScheduleAllowed = True\<rparr>"
  by (simp add: pauseOrResumeScheduler_def coordX_def emptyCluster_def
      storeDelayUntil_def IsPaused_def AllowSchedule_def word_sless_alt word_sle_eq)

subsection \<open>Hot thresholds\<close>

lemma float64_values_hot:
  "float64_round (4 / 5) = 3602879701896397 / 4503599627370496"
  "float64_mul 1282 (3602879701896397 / 4503599627370496) = 4510636501788263 / 4398046511104"
  "float64_mul 0 (3602879701896397 / 4503599627370496) = 0"
  "float64_mul 1283 (3602879701896397 / 4503599627370496) = 2257077469498573 / 2199023255552"
  "float64_div 61584 60 = 2257077469498573 / 2199023255552"
  "float64_div 61536 60 = 2255318250894131 / 2199023255552"
  "float64_div 6000000 60 = 100000" "float64_div 600 60 = 10" "float64_div 100000 10 = 10000"
  "float64_div 0 60 = 0" "float64_div 0 10 = 0"
  "float64_of_int 60 = 60"
  by (simp_all add: float64_eval)

lemma Seconds_values: "Seconds 60000000000 = 60" "Seconds 10000000000 = 10"
  by (simp_all add: Seconds_def go_quot_def go_rem_def float64_eval)

lemma topN_rates:
  "TopN_Len topNFull = 60" "TopN_Len [(100, oldItemX)] = 1"
  "GetByteRate hotEnvX (GetTopNMin hotEnvX byteDim topNFull) = 1282"
  "GetKeyRate hotEnvX (GetTopNMin hotEnvX keyDim topNFull) = 0"
  by (simp_all add: topNFull_def TopN_Len_def hotEnvX_def GetByteRate_def GetKeyRate_def
      itemZero_def go_Round_def)

lemma cache_fields:
  "peersOfStore cacheX (Suc 0) = Some [(100, oldItemX)]"
  "peersOfStore cacheFull (Suc 0) = Some topNFull"
  "hc_kind cacheX = WriteFlow" "hc_kind cacheFull = WriteFlow"
  by (simp_all add: cacheX_def cacheFull_def)

lemma calcHotThresholds_values:
  "calcHotThresholds hotEnvX cacheX 1 = minHotThresholds WriteFlow"
  "calcHotThresholds hotEnvX cacheFull 1 byteDim = 4510636501788263 / 4398046511104"
  "calcHotThresholds hotEnvX cacheFull 1 keyDim = 32"
  by (simp_all add: calcHotThresholds_def cache_fields topN_rates TopNN_def
      HotThresholdRatio_def float64_values_hot minHotThresholds_def)

text \<open>
  C4. For every store, \<open>calcHotThresholds\<close> returns the flow kind's fixed minimum
  thresholds (\<open>minHotThresholds\<close>: 1024 and 32 for write flow, 8192 and 128 for read flow)
  whenever the store's TopN holds fewer than 60 (\<open>TopNN\<close>) items or the store has no TopN;
  otherwise it returns, for the byte and for the key dimension, the maximum of 0.8 times
  the rate of the TopN minimum in that dimension (the \<open>float64\<close> product of the rate and
  the constant 0.8) and the minimum threshold of that dimension.
\<close>

theorem calcHotThresholds_spec:
  "((\<forall>tn. peersOfStore f storeID = Some tn \<longrightarrow> TopN_Len tn < 60) \<longrightarrow>
      calcHotThresholds env f storeID = minHotThresholds (hc_kind f)) \<and>
   (\<forall>tn. peersOfStore f storeID = Some tn \<and> 60 \<le> TopN_Len tn \<longrightarrow>
      calcHotThresholds env f storeID byteDim =
        max (float64_mul (GetByteRate env (GetTopNMin env byteDim tn)) (float64_round 0.8))
            (minHotThresholds (hc_kind f) byteDim) \<and>
      calcHotThresholds env f storeID keyDim =
        max (float64_mul (GetKeyRate env (GetTopNMin env keyDim tn)) (float64_round 0.8))
            (minHotThresholds (hc_kind f) keyDim)) \<and>
   minHotThresholds WriteFlow byteDim = 1024 \<and> minHotThresholds WriteFlow keyDim = 32 \<and>
   minHotThresholds ReadFlow byteDim = 8192 \<and> minHotThresholds ReadFlow keyDim = 128"
proof -
  have a: "(\<forall>tn. peersOfStore f storeID = Some tn \<longrightarrow> TopN_Len tn < 60) \<longrightarrow>
      calcHotThresholds env f storeID = minHotThresholds (hc_kind f)"
    by (cases "peersOfStore f storeID") (simp_all add: calcHotThresholds_def TopNN_def)
  have b: "calcHotThresholds env f storeID byteDim =
        max (float64_mul (GetByteRate env (GetTopNMin env byteDim tn)) (float64_round 0.8))
            (minHotThresholds (hc_kind f) byteDim) \<and>
      calcHotThresholds env f storeID keyDim =
        max (float64_mul (GetKeyRate env (GetTopNMin env keyDim tn)) (float64_round 0.8))
            (minHotThresholds (hc_kind f) keyDim)"
    if "peersOfStore f storeID = Some tn" "60 \<le> TopN_Len tn" for tn
    using that
    by (simp add: calcHotThresholds_def TopNN_def HotThresholdRatio_def)
  have c: "minHotThresholds WriteFlow byteDim = 1024 \<and> minHotThresholds WriteFlow keyDim = 32 \<and>
   minHotThresholds ReadFlow byteDim = 8192 \<and> minHotThresholds ReadFlow keyDim = 128"
    by (simp add: minHotThresholds_def)
  from a b c show ?thesis by blast
qed

theorem calcHotThresholds_witness:
  "peersOfStore cacheX 1 = Some [(100, oldItemX)] \<and> TopN_Len [(100, oldItemX)] < 60 \<and>
   calcHotThresholds hotEnvX cacheX 1 = minHotThresholds WriteFlow \<and>
   peersOfStore cacheFull 1 = Some topNFull \<and> 60 \<le> TopN_Len topNFull \<and>
   GetByteRate hotEnvX (GetTopNMin hotEnvX byteDim topNFull) = 1282 \<and>
   calcHotThresholds hotEnvX cacheFull 1 byteDim = 4510636501788263 / 4398046511104 \<and>
   GetKeyRate hotEnvX (GetTopNMin hotEnvX keyDim topNFull) = 0 \<and>
   calcHotThresholds hotEnvX cacheFull 1 keyDim = 32"
  using calcHotThresholds_spec [of cacheX 1 hotEnvX]
    calcHotThresholds_spec [of cacheFull 1 hotEnvX]
  by (simp add: cache_fields topN_rates calcHotThresholds_values float64_values_hot)

subsection \<open>A heartbeat without an old item\<close>

lemma item_fields:
  "needDelete itemZero = False" "needDelete itemEdge = False" "needDelete itemLow = False"
  "thresholds itemLow byteDim = 4510636501788263 / 4398046511104"
  "thresholds itemLow keyDim = 32"
  "thresholds itemZero byteDim = 1024" "thresholds itemZero keyDim = 32"
  "thresholds itemEdge byteDim = 2257077469498573 / 2199023255552"
  "thresholds itemEdge keyDim = 32"
  "HotDegree itemZero = 0" "AntiCount itemZero = 0" "allowAdopt itemZero = False"
  "RegionHeartBeatReportInterval hotEnvX = 60"
  by (simp_all add: itemZero_def itemEdge_def itemLow_def minHotThresholds_def hotEnvX_def
      float64_values_hot)

lemmas new_item_eval = updateHotPeerStat_def Let_def item_fields Seconds_values
  float64_values_hot dimStat_isFull_def dimStat_Add_def newDimStat_def clearLastAverage_def
  hotRegionAntiCount_def dimStat_clearLastAverage_def

lemma new_item_values:
  "(case updateHotPeerStat hotEnvX cacheX 1700000000 itemZero None 6000000 0 60000000000 of
      Inr (Some item) \<Rightarrow> HotDegree item = 1 \<and> AntiCount item = 2 \<and> allowAdopt item \<and> isNew item
    | _ \<Rightarrow> False)"
  "(case updateHotPeerStat hotEnvX cacheX 1700000000 itemEdge None 61584 0 60000000000 of
      Inr (Some item) \<Rightarrow> HotDegree item = 1 \<and> AntiCount item = 2 \<and> allowAdopt item \<and> isNew item
    | _ \<Rightarrow> False)"
  "updateHotPeerStat hotEnvX cacheX 1700000000 itemZero None 600 0 60000000000 = Inr None"
  "updateHotPeerStat hotEnvX cacheX 1700000000 itemLow None 61536 0 60000000000 = Inr None"
  "(case updateHotPeerStat hotEnvX cacheX 1700000000 itemZero None 100000 0 10000000000 of
      Inr (Some item) \<Rightarrow>
        HotDegree item = 0 \<and> AntiCount item = 0 \<and> \<not> allowAdopt item \<and> isNew item
    | _ \<Rightarrow> False)"
  by (simp_all add: new_item_eval hotEnvX_def itemZero_def itemEdge_def itemLow_def
      minHotThresholds_def)

text \<open>
  C6 (as amended). For every non-expired heartbeat of a region peer with no old item
  (none of its own, none inherited or adopted): if the reporting interval is not zero
  and the instantaneous byte rate or key rate (the \<open>float64\<close> quotient of the bytes or
  keys by the interval's seconds) is at or above its threshold, then
  \<open>updateHotPeerStat\<close> returns a new item with \<open>isNew = true\<close>; that item has
  \<open>HotDegree = 1\<close>, \<open>AntiCount = 2\<close> and \<open>allowAdopt = true\<close> when the interval is at least
  \<open>RegionHeartBeatReportInterval\<close> seconds, and keeps the \<open>HotDegree\<close>, \<open>AntiCount\<close> and
  \<open>allowAdopt\<close> the heartbeat item came with when the interval is shorter. If the
  interval is zero or both rates are below their thresholds, no item is created.
\<close>

theorem updateHotPeerStat_new_spec:
  "\<not> needDelete newItem \<longrightarrow>
   (let isHot = (thresholds newItem byteDim \<le> float64_div bytes (Seconds interval) \<or>
                 thresholds newItem keyDim \<le> float64_div keys (Seconds interval))
    in (interval \<noteq> 0 \<and> isHot \<and>
          float64_of_int (RegionHeartBeatReportInterval env) \<le> Seconds interval \<longrightarrow>
          (\<exists>item. updateHotPeerStat env f now newItem None bytes keys interval = Inr (Some item) \<and>
             HotDegree item = 1 \<and> AntiCount item = 2 \<and> allowAdopt item \<and> isNew item)) \<and>
       (interval \<noteq> 0 \<and> isHot \<and>
          Seconds interval < float64_of_int (RegionHeartBeatReportInterval env) \<longrightarrow>
          (\<exists>item. updateHotPeerStat env f now newItem None bytes keys interval = Inr (Some item) \<and>
             HotDegree item = HotDegree newItem \<and> AntiCount item = AntiCount newItem \<and>
             allowAdopt item = allowAdopt newItem \<and> isNew item)) \<and>
       (interval = 0 \<or> \<not> isHot \<longrightarrow>
          updateHotPeerStat env f now newItem None bytes keys interval = Inr None))"
  by (simp add: updateHotPeerStat_def Let_def clearLastAverage_def hotRegionAntiCount_def)

theorem updateHotPeerStat_new_witness:
  "\<not> needDelete itemZero \<and> (60000000000::int64) \<noteq> 0 \<and>
   thresholds itemZero byteDim \<le> float64_div 6000000 (Seconds 60000000000) \<and>
   float64_of_int (RegionHeartBeatReportInterval hotEnvX) \<le> Seconds 60000000000 \<and>
   (case updateHotPeerStat hotEnvX cacheX 1700000000 itemZero None 6000000 0 60000000000 of
      Inr (Some item) \<Rightarrow> HotDegree item = 1 \<and> AntiCount item = 2 \<and> allowAdopt item \<and> isNew item
    | _ \<Rightarrow> False) \<and>
   \<not> needDelete itemEdge \<and>
   thresholds itemEdge byteDim = float64_mul 1283 (float64_round 0.8) \<and>
   float64_div 61584 (Seconds 60000000000) = float64_mul 1283 (float64_round 0.8) \<and>
   thresholds itemEdge byteDim \<le> float64_div 61584 (Seconds 60000000000) \<and>
   (case updateHotPeerStat hotEnvX cacheX 1700000000 itemEdge None 61584 0 60000000000 of
      Inr (Some item) \<Rightarrow> HotDegree item = 1 \<and> AntiCount item = 2 \<and> allowAdopt item \<and> isNew item
    | _ \<Rightarrow> False) \<and>
   \<not> thresholds itemZero byteDim \<le> float64_div 600 (Seconds 60000000000) \<and>
   \<not> thresholds itemZero keyDim \<le> float64_div 0 (Seconds 60000000000) \<and>
   updateHotPeerStat hotEnvX cacheX 1700000000 itemZero None 600 0 60000000000 = Inr None \<and>
   \<not> needDelete itemLow \<and>
   thresholds itemLow byteDim = float64_mul 1282 (float64_round 0.8) \<and>
   float64_div 61536 (Seconds 60000000000) < float64_mul 1282 (float64_round 0.8) \<and>
   \<not> thresholds itemLow byteDim \<le> float64_div 61536 (Seconds 60000000000) \<and>
   \<not> thresholds itemLow keyDim \<le> float64_div 0 (Seconds 60000000000) \<and>
   updateHotPeerStat hotEnvX cacheX 1700000000 itemLow None 61536 0 60000000000 = Inr None \<and>
   (10000000000::int64) \<noteq> 0 \<and>
   thresholds itemZero byteDim \<le> float64_div 100000 (Seconds 10000000000) \<and>
   Seconds 10000000000 < float64_of_int (RegionHeartBeatReportInterval hotEnvX) \<and>
   (case updateHotPeerStat hotEnvX cacheX 1700000000 itemZero None 100000 0 10000000000 of
      Inr (Some item) \<Rightarrow>
        HotDegree item = 0 \<and> AntiCount item = 0 \<and> \<not> allowAdopt item \<and> isNew item
    | _ \<Rightarrow> False) \<and>
   HotDegree itemZero = 0 \<and> AntiCount itemZero = 0 \<and> \<not> allowAdopt itemZero"
  using updateHotPeerStat_new_spec [of itemZero 100000 10000000000 0 hotEnvX cacheX 1700000000]
    updateHotPeerStat_new_spec [of itemZero 6000000 60000000000 0 hotEnvX cacheX 1700000000]
    updateHotPeerStat_new_spec [of itemEdge 61584 60000000000 0 hotEnvX cacheX 1700000000]
    updateHotPeerStat_new_spec [of itemZero 600 60000000000 0 hotEnvX cacheX 1700000000]
    updateHotPeerStat_new_spec [of itemLow 61536 60000000000 0 hotEnvX cacheX 1700000000]
  by (simp add: item_fields Seconds_values float64_values_hot new_item_values)

text \<open>
  The claim as first stated fails for a short reporting interval: a heartbeat covering
  10 seconds with a byte rate of 10000 (threshold 1024) creates an item, but with
  \<open>HotDegree = 0\<close>, \<open>AntiCount = 0\<close> and \<open>allowAdopt = false\<close>.
\<close>

theorem updateHotPeerStat_new_counterexample:
  "\<not> needDelete itemZero \<and>
   thresholds itemZero byteDim \<le> float64_div 100000 (Seconds 10000000000) \<and>
   (case updateHotPeerStat hotEnvX cacheX 1700000000 itemZero None 100000 0 10000000000 of
      Inr (Some item) \<Rightarrow>
        HotDegree item = 0 \<and> AntiCount item = 0 \<and> \<not> allowAdopt item \<and> isNew item
    | _ \<Rightarrow> False)"
  by (simp add: item_fields Seconds_values float64_values_hot new_item_values)

subsection \<open>The first heartbeat after a leader transfer\<close>

lemma dimStat_Clone_id: "dimStat_Clone d = d"
  by (simp add: dimStat_Clone_def)

lemma map_option_dimStat_Clone: "map_option dimStat_Clone x = x"
  by (cases x) (simp_all add: dimStat_Clone_id)

text \<open>
  C9. On a heartbeat for which \<open>justTransferLeader\<close> holds and a non-expired old cache
  item exists (with its rolling statistics, which an adopted item must have),
  \<open>updateHotPeerStat\<close> returns the heartbeat item with the old item's \<open>HotDegree\<close> and
  \<open>AntiCount\<close> and with the old item's rolling byte-rate and key-rate statistics as they
  are: the heartbeat's bytes and keys are not added. \<open>allowAdopt\<close> is carried from the
  old item (false for an adopted one) and only \<open>lastTransferLeaderTime\<close> is newly
  stamped, with the current time.
\<close>

theorem updateHotPeerStat_justTransferLeader_spec:
  "\<not> needDelete newItem \<and> justTransferLeader newItem \<and>
   (hp_source newItem = adopt \<longrightarrow> rollingByteRate old \<noteq> None \<and> rollingKeyRate old \<noteq> None) \<longrightarrow>
   updateHotPeerStat env f now newItem (Some old) bytes keys interval =
     Inr (Some (newItem\<lparr>HotDegree := HotDegree old, AntiCount := AntiCount old,
        rollingByteRate := rollingByteRate old, rollingKeyRate := rollingKeyRate old,
        allowAdopt := (if hp_source newItem = adopt then False else allowAdopt old),
        lastTransferLeaderTime := now\<rparr>))"
  by (auto simp: updateHotPeerStat_def Let_def map_option_dimStat_Clone)

theorem updateHotPeerStat_justTransferLeader_witness:
  "\<not> needDelete (itemZero\<lparr>justTransferLeader := True\<rparr>) \<and>
   justTransferLeader (itemZero\<lparr>justTransferLeader := True\<rparr>) \<and>
   hp_source (itemZero\<lparr>justTransferLeader := True\<rparr>) \<noteq> adopt \<and>
   updateHotPeerStat hotEnvX cacheX 1700000000 (itemZero\<lparr>justTransferLeader := True\<rparr>)
       (Some oldItemX) 6000000 0 60000000000
     = Inr (Some (itemZero\<lparr>justTransferLeader := True, HotDegree := 3, AntiCount := 2,
          rollingByteRate := Some (newDimStat byteDim),
          rollingKeyRate := Some (newDimStat keyDim), allowAdopt := True,
          lastTransferLeaderTime := 1700000000\<rparr>)) \<and>
   hp_source (itemZero\<lparr>justTransferLeader := True, hp_source := adopt\<rparr>) = adopt \<and>
   rollingByteRate oldItemX \<noteq> None \<and> rollingKeyRate oldItemX \<noteq> None \<and>
   updateHotPeerStat hotEnvX cacheX 1700000000
       (itemZero\<lparr>justTransferLeader := True, hp_source := adopt\<rparr>)
       (Some oldItemX) 6000000 0 60000000000
     = Inr (Some (itemZero\<lparr>justTransferLeader := True, hp_source := adopt, HotDegree := 3,
          AntiCount := 2, rollingByteRate := Some (newDimStat byteDim),
          rollingKeyRate := Some (newDimStat keyDim), allowAdopt := False,
          lastTransferLeaderTime := 1700000000\<rparr>))"
  using updateHotPeerStat_justTransferLeader_spec [of "itemZero\<lparr>justTransferLeader := True\<rparr>"
      oldItemX hotEnvX cacheX 1700000000 6000000 0 60000000000]
    updateHotPeerStat_justTransferLeader_spec
      [of "itemZero\<lparr>justTransferLeader := True, hp_source := adopt\<rparr>"
      oldItemX hotEnvX cacheX 1700000000 6000000 0 60000000000]
  by (simp add: updateHotPeerStat_def Let_def itemZero_def oldItemX_def dimStat_Clone_def
      newDimStat_def)

subsection \<open>A heartbeat that fills the rolling window\<close>

lemma TopN_Get_Remove: "TopN_Get regionID (TopN_Remove regionID tn) = None"
  by (induction tn) (auto simp: TopN_Get_def TopN_Remove_def)

lemma Update_delete:
  "needDelete item \<Longrightarrow>
     getOldHotPeerStat (Update f item) (hp_RegionID item) (hp_StoreID item) = None \<and>
     (case storesOfRegion (Update f item) (hp_RegionID item) of
        None \<Rightarrow> True
      | Some stores \<Rightarrow> hp_StoreID item \<notin> stores)"
  by (auto simp: Update_def IsNeedDelete_def Let_def getOldHotPeerStat_def TopN_Get_Remove
      split: option.splits)

lemma full_step:
  assumes "\<not> needDelete newItem" "\<not> justTransferLeader newItem"
    "rollingByteRate old = Some b" "rollingKeyRate old = Some k"
    "\<not> isOldColdPeer f old (hp_StoreID newItem)"
    "dimStat_isFull env (dimStat_Add keys interval k)"
  shows "\<exists>item. updateHotPeerStat env f now newItem (Some old) bytes keys interval
           = Inr (Some item) \<and>
      hp_RegionID item = hp_RegionID newItem \<and> hp_StoreID item = hp_StoreID newItem \<and>
      (if lastAverageHot env (thresholds newItem) b k bytes keys interval
       then HotDegree item = HotDegree old + 1 \<and> AntiCount item = 2 \<and> \<not> needDelete item
       else HotDegree item = HotDegree old - 1 \<and> AntiCount item = AntiCount old - 1 \<and>
            needDelete item = (AntiCount item \<le>s 0))"
  using assms
  by (simp add: updateHotPeerStat_def Let_def dimStat_Clone_id isFullAndHot_def
      lastAverageHot_def clearLastAverage_def hotRegionAntiCount_def)

text \<open>
  C1 (as amended). For every non-expired heartbeat that is not the first after a
  leader transfer, with an old item (having its rolling statistics) that is not an old
  cold peer (\<open>isOldColdPeer\<close> is false), and whose key-rate window is full once the
  sample is added: when the last-average rate is hot, \<open>updateHotPeerStat\<close> produces an
  item with \<open>HotDegree\<close> equal to the old \<open>HotDegree\<close> plus one, \<open>AntiCount\<close> reset to 2 and
  not marked \<open>needDelete\<close>; when it is cold, the new item has the old \<open>HotDegree\<close> minus one
  and the old \<open>AntiCount\<close> minus one, and is marked \<open>needDelete\<close> exactly when the new
  \<open>AntiCount\<close> is at most 0, in which case \<open>Update\<close> removes the entry from both
  \<open>peersOfStore\<close> and \<open>storesOfRegion\<close>.
\<close>

theorem updateHotPeerStat_full_spec:
  "\<not> needDelete newItem \<and> \<not> justTransferLeader newItem \<and>
   rollingByteRate old = Some b \<and> rollingKeyRate old = Some k \<and>
   \<not> isOldColdPeer f old (hp_StoreID newItem) \<and>
   dimStat_isFull env (dimStat_Add keys interval k) \<longrightarrow>
   (\<exists>item. updateHotPeerStat env f now newItem (Some old) bytes keys interval = Inr (Some item) \<and>
      (lastAverageHot env (thresholds newItem) b k bytes keys interval \<longrightarrow>
         HotDegree item = HotDegree old + 1 \<and> AntiCount item = 2 \<and> \<not> needDelete item) \<and>
      (\<not> lastAverageHot env (thresholds newItem) b k bytes keys interval \<longrightarrow>
         HotDegree item = HotDegree old - 1 \<and> AntiCount item = AntiCount old - 1 \<and>
         needDelete item = (AntiCount item \<le>s 0)) \<and>
      (needDelete item \<longrightarrow>
         getOldHotPeerStat (Update f item) (hp_RegionID newItem) (hp_StoreID newItem) = None \<and>
         (\<forall>stores. storesOfRegion (Update f item) (hp_RegionID newItem) = Some stores \<longrightarrow>
            hp_StoreID newItem \<notin> stores)))"
proof (intro impI)
  assume h: "\<not> needDelete newItem \<and> \<not> justTransferLeader newItem \<and>
   rollingByteRate old = Some b \<and> rollingKeyRate old = Some k \<and>
   \<not> isOldColdPeer f old (hp_StoreID newItem) \<and>
   dimStat_isFull env (dimStat_Add keys interval k)"
  then obtain item where
    r: "updateHotPeerStat env f now newItem (Some old) bytes keys interval = Inr (Some item)"
    and ids: "hp_RegionID item = hp_RegionID newItem" "hp_StoreID item = hp_StoreID newItem"
    and d: "if lastAverageHot env (thresholds newItem) b k bytes keys interval
       then HotDegree item = HotDegree old + 1 \<and> AntiCount item = 2 \<and> \<not> needDelete item
       else HotDegree item = HotDegree old - 1 \<and> AntiCount item = AntiCount old - 1 \<and>
            needDelete item = (AntiCount item \<le>s 0)"
    using full_step[of newItem old b k f env keys interval now bytes] by blast
  have e: "needDelete item \<Longrightarrow>
         getOldHotPeerStat (Update f item) (hp_RegionID newItem) (hp_StoreID newItem) = None \<and>
         (\<forall>stores. storesOfRegion (Update f item) (hp_RegionID newItem) = Some stores \<longrightarrow>
            hp_StoreID newItem \<notin> stores)"
    using Update_delete[of item f] ids by (auto split: option.splits)
  show "\<exists>item. updateHotPeerStat env f now newItem (Some old) bytes keys interval = Inr (Some item) \<and>
      (lastAverageHot env (thresholds newItem) b k bytes keys interval \<longrightarrow>
         HotDegree item = HotDegree old + 1 \<and> AntiCount item = 2 \<and> \<not> needDelete item) \<and>
      (\<not> lastAverageHot env (thresholds newItem) b k bytes keys interval \<longrightarrow>
         HotDegree item = HotDegree old - 1 \<and> AntiCount item = AntiCount old - 1 \<and>
         needDelete item = (AntiCount item \<le>s 0)) \<and>
      (needDelete item \<longrightarrow>
         getOldHotPeerStat (Update f item) (hp_RegionID newItem) (hp_StoreID newItem) = None \<and>
         (\<forall>stores. storesOfRegion (Update f item) (hp_RegionID newItem) = Some stores \<longrightarrow>
            hp_StoreID newItem \<notin> stores))"
    using r d e by (intro exI[of _ item]) (auto split: if_splits)
qed

theorem updateHotPeerStat_full_witness:
  "\<not> needDelete itemZero \<and> \<not> justTransferLeader itemZero \<and>
   rollingByteRate oldItemX = Some (newDimStat byteDim) \<and>
   rollingKeyRate oldItemX = Some (newDimStat keyDim) \<and>
   \<not> isOldColdPeer cacheX oldItemX (hp_StoreID itemZero) \<and>
   dimStat_isFull hotEnvX (dimStat_Add 0 60000000000 (newDimStat keyDim)) \<and>
   lastAverageHot hotEnvX (thresholds itemZero) (newDimStat byteDim) (newDimStat keyDim)
     6000000 0 60000000000 \<and>
   (case updateHotPeerStat hotEnvX cacheX 1700000000 itemZero (Some oldItemX) 6000000 0
           60000000000 of
      Inr (Some item) \<Rightarrow> HotDegree item = 4 \<and> AntiCount item = 2 \<and> \<not> needDelete item
    | _ \<Rightarrow> False) \<and>
   \<not> lastAverageHot hotEnvX (thresholds itemZero) (newDimStat byteDim) (newDimStat keyDim)
     600 0 60000000000 \<and>
   (case updateHotPeerStat hotEnvX cacheX 1700000000 itemZero
           (Some (oldItemX\<lparr>AntiCount := 1\<rparr>)) 600 0 60000000000 of
      Inr (Some item) \<Rightarrow>
        HotDegree item = 2 \<and> AntiCount item = 0 \<and> needDelete item \<and>
        getOldHotPeerStat (Update cacheX item) 100 1 = None \<and>
        storesOfRegion (Update cacheX item) 100 = Some {}
    | _ \<Rightarrow> False)"
  using updateHotPeerStat_full_spec [of itemZero oldItemX "newDimStat byteDim"
      "newDimStat keyDim" cacheX hotEnvX 0 60000000000 1700000000 6000000]
    updateHotPeerStat_full_spec [of itemZero "oldItemX\<lparr>AntiCount := 1\<rparr>" "newDimStat byteDim"
      "newDimStat keyDim" cacheX hotEnvX 0 60000000000 1700000000 600]
  by (simp add: updateHotPeerStat_def Let_def itemZero_def oldItemY_def oldItemX_def
      cacheX_def cacheY_def hotEnvX_def Seconds_def minHotThresholds_def dimStat_isFull_def
      dimStat_Add_def newDimStat_def clearLastAverage_def hotRegionAntiCount_def
      isOldColdPeer_def isFullAndHot_def lastAverageHot_def dimStat_isLastAverageHot_def
      dimStat_clearLastAverage_def word_sle_eq Update_def IsNeedDelete_def
      getOldHotPeerStat_def TopN_Remove_def TopN_Get_def)

text \<open>
  The claim as first stated fails for an old cold peer: store 1 was a peer of the region
  at the last heartbeat but has no entry in \<open>storesOfRegion\<close>, and its item inherits the
  old item of store 3 with \<open>HotDegree = 3\<close>. The window is full and hot, and the new
  \<open>HotDegree\<close> is 1, not 4.
\<close>

theorem updateHotPeerStat_full_counterexample:
  "\<not> needDelete (itemZero\<lparr>hp_source := inherit\<rparr>) \<and>
   isOldColdPeer cacheY oldItemY 1 \<and>
   dimStat_isFull hotEnvX (dimStat_Add 0 60000000000 (newDimStat keyDim)) \<and>
   lastAverageHot hotEnvX (minHotThresholds WriteFlow) (newDimStat byteDim) (newDimStat keyDim)
     6000000 0 60000000000 \<and>
   HotDegree oldItemY + 1 = 4 \<and>
   (case updateHotPeerStat hotEnvX cacheY 1700000000 (itemZero\<lparr>hp_source := inherit\<rparr>)
           (Some oldItemY) 6000000 0 60000000000 of
      Inr (Some item) \<Rightarrow> HotDegree item = 1 \<and> AntiCount item = 2
    | _ \<Rightarrow> False)"
  by (simp add: updateHotPeerStat_def Let_def itemZero_def oldItemY_def oldItemX_def
      cacheX_def cacheY_def hotEnvX_def Seconds_def minHotThresholds_def dimStat_isFull_def
      dimStat_Add_def newDimStat_def clearLastAverage_def hotRegionAntiCount_def
      isOldColdPeer_def isFullAndHot_def lastAverageHot_def dimStat_isLastAverageHot_def
      dimStat_clearLastAverage_def word_sle_eq Update_def IsNeedDelete_def
      getOldHotPeerStat_def TopN_Remove_def TopN_Get_def)

end
